theory Spec2Isabelle
  imports
    Complex_Main
    "HOL-Library.Word"
    "HOL-Library.Char_ord"
    "HOL-Library.List_Lexorder"
    "HOL-Library.Sublist"
begin

unbundle bit_operations_syntax

section \<open>Python values\<close>

text \<open>
  The scripts pass around what \<^verbatim>\<open>json.loads\<close> and the table store return: \<^verbatim>\<open>None\<close>,
  booleans, numbers, strings, lists and dictionaries. A dictionary is an association list in
  insertion order, read with \<open>map_of\<close>. A string is the byte sequence of its UTF-8 encoding,
  so \<^verbatim>\<open>s.encode()\<close> is the string itself.
\<close>

datatype json =
    JNull
  | JBool bool
  | JNum real
  | JStr string
  | JList "json list"
  | JObj "(string \<times> json) list"

type_synonym fields = "(string \<times> json) list"

datatype exn =
    ConnectionError
  | HTTPError
  | AttributeError
  | TypeError
  | KeyError
  | ValueError
  | JSONDecodeError

text \<open>Truthiness, as \<^verbatim>\<open>not x\<close>, \<^verbatim>\<open>if x\<close> and \<^verbatim>\<open>all([...])\<close> read it.\<close>

fun truthy :: "json \<Rightarrow> bool" where
  "truthy JNull = False"
| "truthy (JBool b) = b"
| "truthy (JNum x) = (x \<noteq> 0)"
| "truthy (JStr s) = (s \<noteq> [])"
| "truthy (JList xs) = (xs \<noteq> [])"
| "truthy (JObj d) = (d \<noteq> [])"

text \<open>\<^verbatim>\<open>d.get(k, default)\<close> on a dictionary, and \<^verbatim>\<open>k in d\<close>.\<close>

definition dict_get :: "fields \<Rightarrow> string \<Rightarrow> json \<Rightarrow> json" where
  "dict_get d k dflt = (case map_of d k of None \<Rightarrow> dflt | Some v \<Rightarrow> v)"

definition dict_has :: "fields \<Rightarrow> string \<Rightarrow> bool" where
  "dict_has d k = (map_of d k \<noteq> None)"

text \<open>
  \<^verbatim>\<open>x.get(k, default)\<close> on a value that came out of \<^verbatim>\<open>json.loads\<close>: only a dictionary has
  the method, anything else raises \<^verbatim>\<open>AttributeError\<close>.
\<close>

definition py_get :: "json \<Rightarrow> string \<Rightarrow> json \<Rightarrow> exn + json" where
  "py_get x k dflt = (case x of JObj d \<Rightarrow> Inr (dict_get d k dflt) | _ \<Rightarrow> Inl AttributeError)"

text \<open>
  \<^verbatim>\<open>for x in v\<close>: a list gives its elements, a string its characters, a dictionary its keys;
  the other values are not iterable.
\<close>

definition py_iter :: "json \<Rightarrow> exn + json list" where
  "py_iter v =
     (case v of
        JList xs \<Rightarrow> Inr xs
      | JStr s \<Rightarrow> Inr (map (\<lambda>c. JStr [c]) s)
      | JObj d \<Rightarrow> Inr (map (\<lambda>kv. JStr (fst kv)) d)
      | _ \<Rightarrow> Inl TypeError)"

text \<open>
  \<^verbatim>\<open>d.update(other)\<close>, which is also how the table store merges the field map of an update
  into a record: a key already present keeps its place and takes the new value, a new key is
  appended.
\<close>

fun dict_set :: "fields \<Rightarrow> string \<Rightarrow> json \<Rightarrow> fields" where
  "dict_set [] k v = [(k, v)]"
| "dict_set ((k', v') # d) k v = (if k' = k then (k, v) # d else (k', v') # dict_set d k v)"

fun dict_update :: "fields \<Rightarrow> fields \<Rightarrow> fields" where
  "dict_update d [] = d"
| "dict_update d ((k, v) # kvs) = dict_update (dict_set d k v) kvs"

section \<open>The table store, the clock and the log\<close>

text \<open>
  A record of the store is \<^verbatim>\<open>{'id': ..., 'fields': {...}}\<close>. The four tables are lists of
  records in the order the store returns them.
\<close>

datatype row = Row (row_id: string) (row_fields: fields)

datatype table = Applicants | PersonalDetails | WorkExperience | SalaryPreferences

datatype level = INFO | WARNING | ERROR

datatype arg = Str string | Num nat | Exn exn

text \<open>A log entry: the level, the format string as written in the source, the values of its
  placeholders in order.\<close>

type_synonym log_entry = "level \<times> string \<times> arg list"

text \<open>
  \<open>transport\<close> says, for each call to the store still to come, whether that round trip fails
  (the store is remote: any call may raise); when the list is used up, calls succeed.
  \<open>clock\<close> holds the values \<^verbatim>\<open>datetime.now().isoformat()\<close> will return, in order.
\<close>

record state =
  applicants :: "row list"
  personal_details :: "row list"
  work_experience :: "row list"
  salary_preferences :: "row list"
  transport :: "bool list"
  clock :: "string list"
  log :: "log_entry list"

type_synonym 'a io = "state \<Rightarrow> (exn + 'a) \<times> state"

definition return_io :: "'a \<Rightarrow> 'a io" where
  "return_io x s = (Inr x, s)"

definition raise_io :: "exn \<Rightarrow> 'a io" where
  "raise_io e s = (Inl e, s)"

definition bind_io :: "'a io \<Rightarrow> ('a \<Rightarrow> 'b io) \<Rightarrow> 'b io" where
  "bind_io m f s = (case m s of (Inl e, s') \<Rightarrow> (Inl e, s') | (Inr x, s') \<Rightarrow> f x s')"

text \<open>\<^verbatim>\<open>try: m except Exception as e: h(e)\<close>\<close>

definition catch_io :: "'a io \<Rightarrow> (exn \<Rightarrow> 'a io) \<Rightarrow> 'a io" where
  "catch_io m h s = (case m s of (Inl e, s') \<Rightarrow> h e s' | (Inr x, s') \<Rightarrow> (Inr x, s'))"

definition lift_io :: "exn + 'a \<Rightarrow> 'a io" where
  "lift_io r s = (r, s)"

definition logger :: "level \<Rightarrow> string \<Rightarrow> arg list \<Rightarrow> unit io" where
  "logger lvl fmt args s = (Inr (), s\<lparr>log := log s @ [(lvl, fmt, args)]\<rparr>)"

definition now_isoformat :: "string io" where
  "now_isoformat s =
     (case clock s of
        [] \<Rightarrow> (Inr [], s)
      | t # ts \<Rightarrow> (Inr t, s\<lparr>clock := ts\<rparr>))"

fun rows_of :: "table \<Rightarrow> state \<Rightarrow> row list" where
  "rows_of Applicants s = applicants s"
| "rows_of PersonalDetails s = personal_details s"
| "rows_of WorkExperience s = work_experience s"
| "rows_of SalaryPreferences s = salary_preferences s"

fun set_rows :: "table \<Rightarrow> row list \<Rightarrow> state \<Rightarrow> state" where
  "set_rows Applicants rs s = s\<lparr>applicants := rs\<rparr>"
| "set_rows PersonalDetails rs s = s\<lparr>personal_details := rs\<rparr>"
| "set_rows WorkExperience rs s = s\<lparr>work_experience := rs\<rparr>"
| "set_rows SalaryPreferences rs s = s\<lparr>salary_preferences := rs\<rparr>"

text \<open>One round trip to the store: it fails when the transport says so.\<close>

definition remote_call :: "'a io \<Rightarrow> 'a io" where
  "remote_call m s =
     (case transport s of
        [] \<Rightarrow> m s
      | b # bs \<Rightarrow>
          if b then (Inl ConnectionError, s\<lparr>transport := bs\<rparr>)
          else m (s\<lparr>transport := bs\<rparr>))"

text \<open>
  \<^verbatim>\<open>search(field, value)\<close> returns the records whose field is the value or, for a link field
  (a list of record identifiers), contains it.
\<close>

definition links_to :: "string \<Rightarrow> string \<Rightarrow> row \<Rightarrow> bool" where
  "links_to fld v r =
     (case map_of (row_fields r) fld of
        Some (JStr x) \<Rightarrow> x = v
      | Some (JList xs) \<Rightarrow> JStr v \<in> set xs
      | _ \<Rightarrow> False)"

definition search :: "table \<Rightarrow> string \<Rightarrow> string \<Rightarrow> row list io" where
  "search t fld v = remote_call (\<lambda>s. (Inr (filter (links_to fld v) (rows_of t s)), s))"

definition get_all :: "table \<Rightarrow> (row \<Rightarrow> bool) \<Rightarrow> row list io" where
  "get_all t formula = remote_call (\<lambda>s. (Inr (filter formula (rows_of t s)), s))"

text \<open>\<^verbatim>\<open>get\<close>, \<^verbatim>\<open>update\<close> and \<^verbatim>\<open>delete\<close> of an identifier the table does not hold are
  refused by the store.\<close>

definition get :: "table \<Rightarrow> string \<Rightarrow> row io" where
  "get t rid =
     remote_call (\<lambda>s.
       case find (\<lambda>r. row_id r = rid) (rows_of t s) of
         None \<Rightarrow> (Inl HTTPError, s)
       | Some r \<Rightarrow> (Inr r, s))"

definition update :: "table \<Rightarrow> string \<Rightarrow> fields \<Rightarrow> unit io" where
  "update t rid flds =
     remote_call (\<lambda>s.
       if rid \<in> set (map row_id (rows_of t s)) then
         (Inr (),
          set_rows t
            (map (\<lambda>r. if row_id r = rid then Row rid (dict_update (row_fields r) flds) else r)
               (rows_of t s)) s)
       else (Inl HTTPError, s))"

definition delete :: "table \<Rightarrow> string \<Rightarrow> unit io" where
  "delete t rid =
     remote_call (\<lambda>s.
       if rid \<in> set (map row_id (rows_of t s)) then
         (Inr (), set_rows t (filter (\<lambda>r. row_id r \<noteq> rid) (rows_of t s)) s)
       else (Inl HTTPError, s))"

text \<open>
  A new record is written with \<^verbatim>\<open>table.create(fields)\<close>. The class the scripts import,
  \<^verbatim>\<open>from airtable import Airtable\<close>, built as \<^verbatim>\<open>Airtable(BASE_ID, name, API_KEY)\<close>, is
  the one whose methods are \<^verbatim>\<open>search\<close>, \<^verbatim>\<open>get_all\<close>, \<^verbatim>\<open>get\<close>, \<^verbatim>\<open>update\<close>, \<^verbatim>\<open>delete\<close>
  and, for a new record, \<^verbatim>\<open>insert\<close>: it has no attribute \<^verbatim>\<open>create\<close>. The call raises
  \<^verbatim>\<open>AttributeError\<close> before any round trip, and the store is left as it is.
\<close>

definition create :: "table \<Rightarrow> fields \<Rightarrow> row io" where
  "create t flds = raise_io AttributeError"

text \<open>\<^verbatim>\<open>json.dumps(..., indent=2)\<close> and \<^verbatim>\<open>json.loads\<close> are taken as given.\<close>

record codec =
  dumps :: "json \<Rightarrow> string"
  loads :: "string \<Rightarrow> exn + json"

section \<open>compression\_script.py\<close>

definition fetch_personal_data :: "string \<Rightarrow> fields option io" where
  "fetch_personal_data applicant_id =
     catch_io
       (bind_io (search PersonalDetails ''Applicant'' applicant_id) (\<lambda>records.
          case records of
            r # _ \<Rightarrow> return_io (Some (row_fields r))
          | [] \<Rightarrow> return_io None))
       (\<lambda>e. bind_io (logger ERROR ''Failed to fetch personal data: {str(e)}'' [Exn e]) (\<lambda>_.
          return_io None))"

definition fetch_experience_data :: "string \<Rightarrow> fields list io" where
  "fetch_experience_data applicant_id =
     catch_io
       (bind_io (search WorkExperience ''Applicant'' applicant_id) (\<lambda>records.
          return_io (map row_fields records)))
       (\<lambda>e. bind_io (logger ERROR ''Failed to fetch experience data: {str(e)}'' [Exn e]) (\<lambda>_.
          return_io []))"

definition fetch_salary_data :: "string \<Rightarrow> fields option io" where
  "fetch_salary_data applicant_id =
     catch_io
       (bind_io (search SalaryPreferences ''Applicant'' applicant_id) (\<lambda>records.
          case records of
            r # _ \<Rightarrow> return_io (Some (row_fields r))
          | [] \<Rightarrow> return_io None))
       (\<lambda>e. bind_io (logger ERROR ''Failed to fetch salary data: {str(e)}'' [Exn e]) (\<lambda>_.
          return_io None))"

text \<open>The three sections of the document, as the dictionary display of
  \<^verbatim>\<open>compress_applicant_data\<close> builds them from the fields of the rows.\<close>

definition compressed_personal :: "fields \<Rightarrow> json" where
  "compressed_personal personal_data =
     JObj [(''name'', dict_get personal_data ''Full Name'' (JStr '''')),
           (''email'', dict_get personal_data ''Email'' (JStr '''')),
           (''location'', dict_get personal_data ''Location'' (JStr '''')),
           (''linkedin'', dict_get personal_data ''LinkedIn'' (JStr ''''))]"

definition compressed_experience :: "fields \<Rightarrow> json" where
  "compressed_experience ex =
     JObj [(''company'', dict_get ex ''Company'' (JStr '''')),
           (''title'', dict_get ex ''Title'' (JStr '''')),
           (''start'', dict_get ex ''Start Date'' (JStr '''')),
           (''end'', dict_get ex ''End Date'' (JStr '''')),
           (''technologies'', dict_get ex ''Technologies'' (JList [])),
           (''current'', dict_get ex ''Current Position'' (JBool False))]"

definition compressed_salary :: "fields \<Rightarrow> json" where
  "compressed_salary salary_data =
     JObj [(''preferred_rate'', dict_get salary_data ''Preferred Rate'' (JNum 0)),
           (''minimum_rate'', dict_get salary_data ''Minimum Rate'' (JNum 0)),
           (''currency'', dict_get salary_data ''Currency'' (JStr ''USD'')),
           (''availability'', dict_get salary_data ''Availability'' (JNum 0))]"

definition compressed_json :: "fields \<Rightarrow> fields list \<Rightarrow> fields \<Rightarrow> string \<Rightarrow> json" where
  "compressed_json personal_data experience_data salary_data compressed_at =
     JObj [(''personal'', compressed_personal personal_data),
           (''experience'', JList (map compressed_experience experience_data)),
           (''salary'', compressed_salary salary_data),
           (''metadata'', JObj [(''compressed_at'', JStr compressed_at),
                                (''version'', JStr ''1.0'')])]"

text \<open>\<^verbatim>\<open>all([personal_data, salary_data])\<close>: each is \<^verbatim>\<open>None\<close> or a dictionary, and an empty
  dictionary is as false as \<^verbatim>\<open>None\<close>.\<close>

definition all_present :: "fields option \<Rightarrow> fields option \<Rightarrow> bool" where
  "all_present personal_data salary_data =
     (case (personal_data, salary_data) of
        (Some p, Some sal) \<Rightarrow> p \<noteq> [] \<and> sal \<noteq> []
      | _ \<Rightarrow> False)"

definition compress_applicant_data :: "codec \<Rightarrow> string \<Rightarrow> json option io" where
  "compress_applicant_data J applicant_id =
     catch_io
       (bind_io (logger INFO ''Starting compression for applicant {applicant_id}''
                   [Str applicant_id]) (\<lambda>_.
        bind_io (fetch_personal_data applicant_id) (\<lambda>personal_data.
        bind_io (fetch_experience_data applicant_id) (\<lambda>experience_data.
        bind_io (fetch_salary_data applicant_id) (\<lambda>salary_data.
        if \<not> all_present personal_data salary_data then
          bind_io (logger ERROR ''Missing required data for applicant {applicant_id}''
                     [Str applicant_id]) (\<lambda>_.
          return_io None)
        else
          bind_io now_isoformat (\<lambda>compressed_at.
          let doc = compressed_json (case personal_data of Some p \<Rightarrow> p | None \<Rightarrow> [])
                      experience_data (case salary_data of Some sal \<Rightarrow> sal | None \<Rightarrow> [])
                      compressed_at;
              json_string = dumps J doc
          in
          bind_io now_isoformat (\<lambda>last_compressed.
          bind_io (update Applicants applicant_id
                     [(''Compressed JSON'', JStr json_string),
                      (''Last Compressed'', JStr last_compressed)]) (\<lambda>_.
          bind_io (logger INFO ''Successfully compressed data for applicant {applicant_id}''
                     [Str applicant_id]) (\<lambda>_.
          return_io (Some doc))))))))))
       (\<lambda>e. bind_io (logger ERROR
                       ''Failed to compress data for applicant {applicant_id}: {str(e)}''
                       [Str applicant_id, Exn e]) (\<lambda>_.
            raise_io e))"

text \<open>The filter formula \<^verbatim>\<open>AND({Compressed JSON} = '', {Personal Details} != '')\<close>: to the
  store, a field that is absent, an empty string or an empty list is \<^verbatim>\<open>''\<close>.\<close>

definition blank :: "fields \<Rightarrow> string \<Rightarrow> bool" where
  "blank d k =
     (case map_of d k of
        None \<Rightarrow> True
      | Some JNull \<Rightarrow> True
      | Some (JStr s) \<Rightarrow> s = []
      | Some (JList xs) \<Rightarrow> xs = []
      | Some _ \<Rightarrow> False)"

definition pending_compression :: "row \<Rightarrow> bool" where
  "pending_compression r =
     (blank (row_fields r) ''Compressed JSON'' \<and> \<not> blank (row_fields r) ''Personal Details'')"

fun compress_loop :: "codec \<Rightarrow> row list \<Rightarrow> unit io" where
  "compress_loop J [] = return_io ()"
| "compress_loop J (applicant # rest) =
     bind_io
       (catch_io
          (bind_io (compress_applicant_data J (row_id applicant)) (\<lambda>_. return_io ()))
          (\<lambda>e. logger ERROR ''Failed to compress applicant {applicant_id}: {str(e)}''
                  [Str (row_id applicant), Exn e]))
       (\<lambda>_. compress_loop J rest)"

definition compress_all_pending :: "codec \<Rightarrow> unit io" where
  "compress_all_pending J =
     catch_io
       (bind_io (get_all Applicants pending_compression) (\<lambda>pending_applicants.
        bind_io (logger INFO ''Found {len(pending_applicants)} applicants pending compression''
                   [Num (length pending_applicants)]) (\<lambda>_.
        compress_loop J pending_applicants)))
       (\<lambda>e. bind_io (logger ERROR ''Failed to compress pending applicants: {str(e)}'' [Exn e])
              (\<lambda>_. raise_io e))"

section \<open>decompression\_script.py\<close>

text \<open>\<^verbatim>\<open>json.loads(x)\<close> of a field value: only a string is accepted.\<close>

definition loads_value :: "codec \<Rightarrow> json \<Rightarrow> exn + json" where
  "loads_value J v = (case v of JStr s \<Rightarrow> loads J s | _ \<Rightarrow> Inl TypeError)"

text \<open>The field maps written to the three tables: the dictionary displays \<^verbatim>\<open>update_data\<close> and
  \<^verbatim>\<open>create_data\<close>. The section of the document is whatever \<^verbatim>\<open>json.loads\<close> gave, so the
  \<^verbatim>\<open>.get\<close> raises when it is not a dictionary.\<close>

definition personal_update_data :: "string \<Rightarrow> json \<Rightarrow> exn + fields" where
  "personal_update_data applicant_id personal_data =
     (case personal_data of
        JObj d \<Rightarrow>
          Inr [(''Full Name'', dict_get d ''name'' (JStr '''')),
               (''Email'', dict_get d ''email'' (JStr '''')),
               (''Location'', dict_get d ''location'' (JStr '''')),
               (''LinkedIn'', dict_get d ''linkedin'' (JStr '''')),
               (''Applicant'', JList [JStr applicant_id])]
      | _ \<Rightarrow> Inl AttributeError)"

definition experience_create_data :: "string \<Rightarrow> json \<Rightarrow> exn + fields" where
  "experience_create_data applicant_id ex =
     (case ex of
        JObj d \<Rightarrow>
          Inr [(''Company'', dict_get d ''company'' (JStr '''')),
               (''Title'', dict_get d ''title'' (JStr '''')),
               (''Start Date'', dict_get d ''start'' (JStr '''')),
               (''End Date'',
                  if \<not> truthy (dict_get d ''current'' (JBool False))
                  then dict_get d ''end'' (JStr '''') else JStr ''''),
               (''Technologies'', dict_get d ''technologies'' (JList [])),
               (''Current Position'', dict_get d ''current'' (JBool False)),
               (''Applicant'', JList [JStr applicant_id])]
      | _ \<Rightarrow> Inl AttributeError)"

definition salary_update_data :: "string \<Rightarrow> json \<Rightarrow> exn + fields" where
  "salary_update_data applicant_id salary_data =
     (case salary_data of
        JObj d \<Rightarrow>
          Inr [(''Preferred Rate'', dict_get d ''preferred_rate'' (JNum 0)),
               (''Minimum Rate'', dict_get d ''minimum_rate'' (JNum 0)),
               (''Currency'', dict_get d ''currency'' (JStr ''USD'')),
               (''Availability'', dict_get d ''availability'' (JNum 0)),
               (''Applicant'', JList [JStr applicant_id])]
      | _ \<Rightarrow> Inl AttributeError)"

definition update_personal_details :: "string \<Rightarrow> json \<Rightarrow> unit io" where
  "update_personal_details applicant_id personal_data =
     catch_io
       (bind_io (search PersonalDetails ''Applicant'' applicant_id) (\<lambda>existing_records.
        bind_io (lift_io (personal_update_data applicant_id personal_data)) (\<lambda>update_data.
        case existing_records of
          r # _ \<Rightarrow>
            bind_io (update PersonalDetails (row_id r) update_data) (\<lambda>_.
            logger INFO ''Updated personal details for applicant {applicant_id}''
              [Str applicant_id])
        | [] \<Rightarrow>
            bind_io (create PersonalDetails update_data) (\<lambda>_.
            logger INFO ''Created personal details for applicant {applicant_id}''
              [Str applicant_id]))))
       (\<lambda>e. bind_io (logger ERROR ''Failed to update personal details: {str(e)}'' [Exn e]) (\<lambda>_.
          raise_io e))"

fun delete_records :: "row list \<Rightarrow> unit io" where
  "delete_records [] = return_io ()"
| "delete_records (record # rest) =
     bind_io (delete WorkExperience (row_id record)) (\<lambda>_. delete_records rest)"

fun create_experience :: "string \<Rightarrow> json list \<Rightarrow> unit io" where
  "create_experience applicant_id [] = return_io ()"
| "create_experience applicant_id (ex # rest) =
     bind_io (lift_io (experience_create_data applicant_id ex)) (\<lambda>create_data.
     bind_io (create WorkExperience create_data) (\<lambda>_.
     create_experience applicant_id rest))"

definition update_work_experience :: "string \<Rightarrow> json \<Rightarrow> unit io" where
  "update_work_experience applicant_id experience_data =
     catch_io
       (bind_io (search WorkExperience ''Applicant'' applicant_id) (\<lambda>existing_records.
        bind_io (delete_records existing_records) (\<lambda>_.
        bind_io (lift_io (py_iter experience_data)) (\<lambda>entries.
        bind_io (create_experience applicant_id entries) (\<lambda>_.
        logger INFO ''Updated {len(experience_data)} experience records for applicant {applicant_id}''
          [Num (length entries), Str applicant_id])))))
       (\<lambda>e. bind_io (logger ERROR ''Failed to update work experience: {str(e)}'' [Exn e]) (\<lambda>_.
          raise_io e))"

definition update_salary_preferences :: "string \<Rightarrow> json \<Rightarrow> unit io" where
  "update_salary_preferences applicant_id salary_data =
     catch_io
       (bind_io (search SalaryPreferences ''Applicant'' applicant_id) (\<lambda>existing_records.
        bind_io (lift_io (salary_update_data applicant_id salary_data)) (\<lambda>update_data.
        case existing_records of
          r # _ \<Rightarrow>
            bind_io (update SalaryPreferences (row_id r) update_data) (\<lambda>_.
            logger INFO ''Updated salary preferences for applicant {applicant_id}''
              [Str applicant_id])
        | [] \<Rightarrow>
            bind_io (create SalaryPreferences update_data) (\<lambda>_.
            logger INFO ''Created salary preferences for applicant {applicant_id}''
              [Str applicant_id]))))
       (\<lambda>e. bind_io (logger ERROR ''Failed to update salary preferences: {str(e)}'' [Exn e])
              (\<lambda>_. raise_io e))"

definition decompress_applicant_data :: "codec \<Rightarrow> string \<Rightarrow> bool io" where
  "decompress_applicant_data J applicant_id =
     catch_io
       (bind_io (logger INFO ''Starting decompression for applicant {applicant_id}''
                   [Str applicant_id]) (\<lambda>_.
        bind_io (get Applicants applicant_id) (\<lambda>applicant_record.
        if \<not> dict_has (row_fields applicant_record) ''Compressed JSON'' then
          bind_io (logger ERROR ''No compressed JSON found for applicant {applicant_id}''
                     [Str applicant_id]) (\<lambda>_.
          return_io False)
        else
          bind_io (lift_io (loads_value J
                     (dict_get (row_fields applicant_record) ''Compressed JSON'' JNull)))
            (\<lambda>compressed_data.
          bind_io (lift_io (py_get compressed_data ''personal'' (JObj []))) (\<lambda>personal.
          bind_io (update_personal_details applicant_id personal) (\<lambda>_.
          bind_io (lift_io (py_get compressed_data ''experience'' (JList []))) (\<lambda>experience.
          bind_io (update_work_experience applicant_id experience) (\<lambda>_.
          bind_io (lift_io (py_get compressed_data ''salary'' (JObj []))) (\<lambda>salary.
          bind_io (update_salary_preferences applicant_id salary) (\<lambda>_.
          bind_io now_isoformat (\<lambda>last_decompressed.
          bind_io (update Applicants applicant_id
                     [(''Last Decompressed'', JStr last_decompressed)]) (\<lambda>_.
          bind_io (logger INFO ''Successfully decompressed data for applicant {applicant_id}''
                     [Str applicant_id]) (\<lambda>_.
          return_io True)))))))))))))
       (\<lambda>e. bind_io (logger ERROR
                       ''Failed to decompress data for applicant {applicant_id}: {str(e)}''
                       [Str applicant_id, Exn e]) (\<lambda>_.
            return_io False))"

text \<open>The filter formula
  \<^verbatim>\<open>AND({Compressed JSON} != '', OR({Last Decompressed} = '', {Last Compressed} > {Last Decompressed}))\<close>;
  the two timestamps are ISO strings, compared as strings.\<close>

definition field_greater :: "fields \<Rightarrow> string \<Rightarrow> string \<Rightarrow> bool" where
  "field_greater d k1 k2 =
     (case (map_of d k1, map_of d k2) of
        (Some (JStr a), Some (JStr b)) \<Rightarrow> b < a
      | _ \<Rightarrow> False)"

definition modified_since_decompression :: "row \<Rightarrow> bool" where
  "modified_since_decompression r =
     (\<not> blank (row_fields r) ''Compressed JSON'' \<and>
      (blank (row_fields r) ''Last Decompressed'' \<or>
       field_greater (row_fields r) ''Last Compressed'' ''Last Decompressed''))"

fun decompress_loop :: "codec \<Rightarrow> row list \<Rightarrow> unit io" where
  "decompress_loop J [] = return_io ()"
| "decompress_loop J (applicant # rest) =
     bind_io
       (catch_io
          (bind_io (decompress_applicant_data J (row_id applicant)) (\<lambda>_. return_io ()))
          (\<lambda>e. logger ERROR ''Failed to decompress applicant {applicant_id}: {str(e)}''
                  [Str (row_id applicant), Exn e]))
       (\<lambda>_. decompress_loop J rest)"

definition decompress_all_modified :: "codec \<Rightarrow> unit io" where
  "decompress_all_modified J =
     catch_io
       (bind_io (get_all Applicants modified_since_decompression) (\<lambda>modified_applicants.
        bind_io (logger INFO ''Found {len(modified_applicants)} applicants requiring decompression''
                   [Num (length modified_applicants)]) (\<lambda>_.
        decompress_loop J modified_applicants)))
       (\<lambda>e. bind_io (logger ERROR ''Failed to decompress modified applicants: {str(e)}'' [Exn e])
              (\<lambda>_. raise_io e))"

section \<open>llm\_evaluation.py\<close>

subsection \<open>The digest: \<^verbatim>\<open>hashlib.md5(json_string.encode()).hexdigest()\<close>\<close>

text \<open>MD5 as RFC 1321 defines it, on 32-bit words: the per-round shift amounts, the
  constants \<open>floor(2^32 * abs(sin(i + 1)))\<close>, the padding, one step, one block.\<close>

type_synonym word32 = "32 word"

definition md5_s :: "nat list" where
  "md5_s =
     [7, 12, 17, 22, 7, 12, 17, 22, 7, 12, 17, 22, 7, 12, 17, 22,
      5, 9, 14, 20, 5, 9, 14, 20, 5, 9, 14, 20, 5, 9, 14, 20,
      4, 11, 16, 23, 4, 11, 16, 23, 4, 11, 16, 23, 4, 11, 16, 23,
      6, 10, 15, 21, 6, 10, 15, 21, 6, 10, 15, 21, 6, 10, 15, 21]"

definition md5_K :: "word32 list" where
  "md5_K =
     [0xd76aa478, 0xe8c7b756, 0x242070db, 0xc1bdceee,
      0xf57c0faf, 0x4787c62a, 0xa8304613, 0xfd469501,
      0x698098d8, 0x8b44f7af, 0xffff5bb1, 0x895cd7be,
      0x6b901122, 0xfd987193, 0xa679438e, 0x49b40821,
      0xf61e2562, 0xc040b340, 0x265e5a51, 0xe9b6c7aa,
      0xd62f105d, 0x02441453, 0xd8a1e681, 0xe7d3fbc8,
      0x21e1cde6, 0xc33707d6, 0xf4d50d87, 0x455a14ed,
      0xa9e3e905, 0xfcefa3f8, 0x676f02d9, 0x8d2a4c8a,
      0xfffa3942, 0x8771f681, 0x6d9d6122, 0xfde5380c,
      0xa4beea44, 0x4bdecfa9, 0xf6bb4b60, 0xbebfbc70,
      0x289b7ec6, 0xeaa127fa, 0xd4ef3085, 0x04881d05,
      0xd9d4d039, 0xe6db99e5, 0x1fa27cf8, 0xc4ac5665,
      0xf4292244, 0x432aff97, 0xab9423a7, 0xfc93a039,
      0x655b59c3, 0x8f0ccc92, 0xffeff47d, 0x85845dd1,
      0x6fa87e4f, 0xfe2ce6e0, 0xa3014314, 0x4e0811a1,
      0xf7537e82, 0xbd3af235, 0x2ad7d2bb, 0xeb86d391]"

definition leftrotate :: "word32 \<Rightarrow> nat \<Rightarrow> word32" where
  "leftrotate x c = push_bit c x OR drop_bit (32 - c) x"

text \<open>The message bytes, a byte \<open>0x80\<close>, zero bytes up to 56 modulo 64, and the length of the
  message in bits as eight bytes, least significant first.\<close>

fun le_bytes :: "nat \<Rightarrow> nat \<Rightarrow> nat list" where
  "le_bytes 0 x = []"
| "le_bytes (Suc n) x = x mod 256 # le_bytes n (x div 256)"

definition md5_pad :: "nat list \<Rightarrow> nat list" where
  "md5_pad bs =
     bs @ [128] @ replicate ((119 - length bs mod 64) mod 64) 0 @
     le_bytes 8 ((8 * length bs) mod 2 ^ 64)"

text \<open>Four bytes, least significant first, as a word; a block of 64 bytes as 16 words.\<close>

fun le_words :: "nat list \<Rightarrow> word32 list" where
  "le_words (b0 # b1 # b2 # b3 # bs) =
     word_of_nat (b0 + 256 * b1 + 65536 * b2 + 16777216 * b3) # le_words bs"
| "le_words bs = []"

fun blocks :: "word32 list \<Rightarrow> word32 list list" where
  "blocks [] = []"
| "blocks ws = take 16 ws # blocks (drop 16 ws)"

definition md5_step ::
  "word32 list \<Rightarrow> word32 \<times> word32 \<times> word32 \<times> word32 \<Rightarrow> nat \<Rightarrow>
   word32 \<times> word32 \<times> word32 \<times> word32" where
  "md5_step M st i =
     (case st of (A, B, C, D) \<Rightarrow>
        let F = (if i < 16 then (B AND C) OR (NOT B AND D)
                 else if i < 32 then (D AND B) OR (NOT D AND C)
                 else if i < 48 then B XOR C XOR D
                 else C XOR (B OR NOT D));
            g = (if i < 16 then i
                 else if i < 32 then (5 * i + 1) mod 16
                 else if i < 48 then (3 * i + 5) mod 16
                 else (7 * i) mod 16);
            F' = F + A + md5_K ! i + M ! g
        in (D, B + leftrotate F' (md5_s ! i), B, C))"

definition md5_block ::
  "word32 \<times> word32 \<times> word32 \<times> word32 \<Rightarrow> word32 list \<Rightarrow>
   word32 \<times> word32 \<times> word32 \<times> word32" where
  "md5_block st M =
     (case st of (a0, b0, c0, d0) \<Rightarrow>
        (case foldl (md5_step M) st [0..<64] of (A, B, C, D) \<Rightarrow>
           (a0 + A, b0 + B, c0 + C, d0 + D)))"

definition md5_digest :: "nat list \<Rightarrow> nat list" where
  "md5_digest bs =
     (case foldl md5_block (0x67452301, 0xefcdab89, 0x98badcfe, 0x10325476)
             (blocks (le_words (md5_pad bs))) of
        (a0, b0, c0, d0) \<Rightarrow>
          le_bytes 4 (unat a0) @ le_bytes 4 (unat b0) @ le_bytes 4 (unat c0) @
          le_bytes 4 (unat d0))"

definition hex_byte :: "nat \<Rightarrow> string" where
  "hex_byte b = [''0123456789abcdef'' ! (b div 16), ''0123456789abcdef'' ! (b mod 16)]"

definition md5_hexdigest :: "string \<Rightarrow> string" where
  "md5_hexdigest txt = concat (map hex_byte (md5_digest (map of_char txt)))"

definition hash_json :: "string \<Rightarrow> string" where
  "hash_json json_string = md5_hexdigest json_string"

subsection \<open>Python's \<^verbatim>\<open>==\<close> on values\<close>

text \<open>
  \<^verbatim>\<open>True == 1\<close> and \<^verbatim>\<open>False == 0\<close> hold in Python; lists are equal element by element;
  dictionaries are equal when they have as many keys and every key of the first has an equal
  value in the second.
\<close>

function py_eq :: "json \<Rightarrow> json \<Rightarrow> bool" where
  "py_eq JNull y = (case y of JNull \<Rightarrow> True | _ \<Rightarrow> False)"
| "py_eq (JBool a) y =
     (case y of JBool b \<Rightarrow> a = b | JNum n \<Rightarrow> n = (if a then 1 else 0) | _ \<Rightarrow> False)"
| "py_eq (JNum m) y =
     (case y of JNum n \<Rightarrow> m = n | JBool b \<Rightarrow> m = (if b then 1 else 0) | _ \<Rightarrow> False)"
| "py_eq (JStr s) y = (case y of JStr t \<Rightarrow> s = t | _ \<Rightarrow> False)"
| "py_eq (JList xs) y =
     (case y of
        JList ys \<Rightarrow> length xs = length ys \<and> (\<forall>i < length xs. py_eq (xs ! i) (ys ! i))
      | _ \<Rightarrow> False)"
| "py_eq (JObj a) y =
     (case y of
        JObj b \<Rightarrow>
          length a = length b \<and>
          (\<forall>kv \<in> set a. case map_of b (fst kv) of
                             Some w \<Rightarrow> py_eq (snd kv) w
                           | None \<Rightarrow> False)
      | _ \<Rightarrow> False)"
  by pat_completeness auto
termination
proof (relation "measure (\<lambda>p. size (fst p))", goal_cases)
  case 1
  show ?case by simp
next
  case (2 xs y ys i)
  then have "xs ! i \<in> set xs"
    by simp
  then have "size (xs ! i) \<le> size_list size xs"
    by (rule size_list_estimation') simp
  then show ?case
    by simp
next
  case (3 a y b kv w)
  then have "kv \<in> set a"
    by simp
  moreover have "size (snd kv) \<le> size_prod (\<lambda>x. 0) size kv"
    by (cases kv) simp
  ultimately have "size (snd kv) \<le> size_list (size_prod (\<lambda>x. 0) size) a"
    by (rule size_list_estimation')
  then show ?case
    by simp
qed

subsection \<open>Python string methods\<close>

text \<open>
  A string is held as the bytes of its UTF-8 encoding; \<open>chars\<close> cuts it into its characters,
  whose first byte says how many bytes they have. \<^verbatim>\<open>startswith\<close>, \<^verbatim>\<open>replace\<close>, \<^verbatim>\<open>join\<close> and
  \<^verbatim>\<open>split\<close> at a separator come out the same on the bytes as on the characters.
\<close>

definition char_width :: "char \<Rightarrow> nat" where
  "char_width b =
     (if (of_char b :: nat) < 0xC0 then 1
      else if (of_char b :: nat) < 0xE0 then 2
      else if (of_char b :: nat) < 0xF0 then 3
      else 4)"

fun chars :: "string \<Rightarrow> string list" where
  "chars [] = []"
| "chars (b # bs) = (b # take (char_width b - 1) bs) # chars (drop (char_width b - 1) bs)"

text \<open>The characters that \<^verbatim>\<open>str.isspace\<close> accepts, which are those \<^verbatim>\<open>str.strip\<close> and
  \<^verbatim>\<open>str.split\<close> take for whitespace: tab to carriage return, \<open>U+001C\<close> to \<open>U+001F\<close>, the
  space, \<open>U+0085\<close>, \<open>U+00A0\<close>, \<open>U+1680\<close>, \<open>U+2000\<close> to \<open>U+200A\<close>, \<open>U+2028\<close>, \<open>U+2029\<close>,
  \<open>U+202F\<close>, \<open>U+205F\<close> and \<open>U+3000\<close>.\<close>

definition whitespace :: "string list" where
  "whitespace =
     [[CHR 0x09], [CHR 0x0A], [CHR 0x0B], [CHR 0x0C], [CHR 0x0D], [CHR 0x1C], [CHR 0x1D],
      [CHR 0x1E], [CHR 0x1F], [CHR 0x20], [CHR 0xC2, CHR 0x85], [CHR 0xC2, CHR 0xA0],
      [CHR 0xE1, CHR 0x9A, CHR 0x80], [CHR 0xE2, CHR 0x80, CHR 0x80],
      [CHR 0xE2, CHR 0x80, CHR 0x81], [CHR 0xE2, CHR 0x80, CHR 0x82],
      [CHR 0xE2, CHR 0x80, CHR 0x83], [CHR 0xE2, CHR 0x80, CHR 0x84],
      [CHR 0xE2, CHR 0x80, CHR 0x85], [CHR 0xE2, CHR 0x80, CHR 0x86],
      [CHR 0xE2, CHR 0x80, CHR 0x87], [CHR 0xE2, CHR 0x80, CHR 0x88],
      [CHR 0xE2, CHR 0x80, CHR 0x89], [CHR 0xE2, CHR 0x80, CHR 0x8A],
      [CHR 0xE2, CHR 0x80, CHR 0xA8], [CHR 0xE2, CHR 0x80, CHR 0xA9],
      [CHR 0xE2, CHR 0x80, CHR 0xAF], [CHR 0xE2, CHR 0x81, CHR 0x9F],
      [CHR 0xE3, CHR 0x80, CHR 0x80]]"

definition is_space :: "string \<Rightarrow> bool" where
  "is_space c = (c \<in> set whitespace)"

definition strip :: "string \<Rightarrow> string" where
  "strip s = concat (rev (dropWhile is_space (rev (dropWhile is_space (chars s)))))"

text \<open>\<^verbatim>\<open>s.split(c)\<close> for a separator of one byte.\<close>

fun split_on :: "char \<Rightarrow> string \<Rightarrow> string list" where
  "split_on c [] = [[]]"
| "split_on c (x # xs) =
     (if x = c then [] # split_on c xs
      else (case split_on c xs of
              [] \<Rightarrow> [[x]]
            | w # ws \<Rightarrow> (x # w) # ws))"

text \<open>\<^verbatim>\<open>s.split()\<close>: the maximal runs of characters that are not whitespace.\<close>

fun words_from :: "string \<Rightarrow> string list \<Rightarrow> string list" where
  "words_from w [] = (if w = [] then [] else [w])"
| "words_from w (c # cs) =
     (if is_space c then (if w = [] then words_from [] cs else w # words_from [] cs)
      else words_from (w @ c) cs)"

definition split_words :: "string \<Rightarrow> string list" where
  "split_words s = words_from [] (chars s)"

definition startswith :: "string \<Rightarrow> string \<Rightarrow> bool" where
  "startswith s p = (take (length p) s = p)"

text \<open>\<^verbatim>\<open>s.replace(old, '')\<close> for a non-empty \<open>old\<close>: every occurrence is removed, from the
  left, without overlap.\<close>

fun remove_all :: "string \<Rightarrow> string \<Rightarrow> string" where
  "remove_all old [] = []"
| "remove_all old (x # xs) =
     (if old \<noteq> [] \<and> take (length old) (x # xs) = old
      then remove_all old (drop (length old - 1) xs)
      else x # remove_all old xs)"

text \<open>
  \<^verbatim>\<open>s.lower()\<close> on the letters \<open>A\<close> to \<open>Z\<close>; the other bytes stay. The one use compares
  the result with \<^verbatim>\<open>'none'\<close>, \<^verbatim>\<open>'n/a'\<close> and \<^verbatim>\<open>''\<close>, and no character beyond \<open>U+007F\<close> has
  one of their letters in its lower case, so that comparison comes out as in Python.
\<close>

definition lower :: "string \<Rightarrow> string" where
  "lower s =
     map (\<lambda>c. if 65 \<le> (of_char c :: nat) \<and> (of_char c :: nat) \<le> 90
               then char_of (of_char c + 32 :: nat) else c) s"

fun join :: "string \<Rightarrow> string list \<Rightarrow> string" where
  "join sep [] = []"
| "join sep [x] = x"
| "join sep (x # y # ys) = x @ sep @ join sep (y # ys)"

text \<open>
  The decimal digits: the characters with a decimal value in Unicode 14, which come in
  66 runs of ten, from the zero to the nine; the digits of a run differ in their last byte
  only. The table holds the zero of every run.
\<close>

definition decimal_zeros :: "string list" where
  "decimal_zeros =
     [[CHR 0x30], [CHR 0xD9, CHR 0xA0], [CHR 0xDB, CHR 0xB0], [CHR 0xDF, CHR 0x80],
      [CHR 0xE0, CHR 0xA5, CHR 0xA6], [CHR 0xE0, CHR 0xA7, CHR 0xA6],
      [CHR 0xE0, CHR 0xA9, CHR 0xA6], [CHR 0xE0, CHR 0xAB, CHR 0xA6],
      [CHR 0xE0, CHR 0xAD, CHR 0xA6], [CHR 0xE0, CHR 0xAF, CHR 0xA6],
      [CHR 0xE0, CHR 0xB1, CHR 0xA6], [CHR 0xE0, CHR 0xB3, CHR 0xA6],
      [CHR 0xE0, CHR 0xB5, CHR 0xA6], [CHR 0xE0, CHR 0xB7, CHR 0xA6],
      [CHR 0xE0, CHR 0xB9, CHR 0x90], [CHR 0xE0, CHR 0xBB, CHR 0x90],
      [CHR 0xE0, CHR 0xBC, CHR 0xA0], [CHR 0xE1, CHR 0x81, CHR 0x80],
      [CHR 0xE1, CHR 0x82, CHR 0x90], [CHR 0xE1, CHR 0x9F, CHR 0xA0],
      [CHR 0xE1, CHR 0xA0, CHR 0x90], [CHR 0xE1, CHR 0xA5, CHR 0x86],
      [CHR 0xE1, CHR 0xA7, CHR 0x90], [CHR 0xE1, CHR 0xAA, CHR 0x80],
      [CHR 0xE1, CHR 0xAA, CHR 0x90], [CHR 0xE1, CHR 0xAD, CHR 0x90],
      [CHR 0xE1, CHR 0xAE, CHR 0xB0], [CHR 0xE1, CHR 0xB1, CHR 0x80],
      [CHR 0xE1, CHR 0xB1, CHR 0x90], [CHR 0xEA, CHR 0x98, CHR 0xA0],
      [CHR 0xEA, CHR 0xA3, CHR 0x90], [CHR 0xEA, CHR 0xA4, CHR 0x80],
      [CHR 0xEA, CHR 0xA7, CHR 0x90], [CHR 0xEA, CHR 0xA7, CHR 0xB0],
      [CHR 0xEA, CHR 0xA9, CHR 0x90], [CHR 0xEA, CHR 0xAF, CHR 0xB0],
      [CHR 0xEF, CHR 0xBC, CHR 0x90], [CHR 0xF0, CHR 0x90, CHR 0x92, CHR 0xA0],
      [CHR 0xF0, CHR 0x90, CHR 0xB4, CHR 0xB0], [CHR 0xF0, CHR 0x91, CHR 0x81, CHR 0xA6],
      [CHR 0xF0, CHR 0x91, CHR 0x83, CHR 0xB0], [CHR 0xF0, CHR 0x91, CHR 0x84, CHR 0xB6],
      [CHR 0xF0, CHR 0x91, CHR 0x87, CHR 0x90], [CHR 0xF0, CHR 0x91, CHR 0x8B, CHR 0xB0],
      [CHR 0xF0, CHR 0x91, CHR 0x91, CHR 0x90], [CHR 0xF0, CHR 0x91, CHR 0x93, CHR 0x90],
      [CHR 0xF0, CHR 0x91, CHR 0x99, CHR 0x90], [CHR 0xF0, CHR 0x91, CHR 0x9B, CHR 0x80],
      [CHR 0xF0, CHR 0x91, CHR 0x9C, CHR 0xB0], [CHR 0xF0, CHR 0x91, CHR 0xA3, CHR 0xA0],
      [CHR 0xF0, CHR 0x91, CHR 0xA5, CHR 0x90], [CHR 0xF0, CHR 0x91, CHR 0xB1, CHR 0x90],
      [CHR 0xF0, CHR 0x91, CHR 0xB5, CHR 0x90], [CHR 0xF0, CHR 0x91, CHR 0xB6, CHR 0xA0],
      [CHR 0xF0, CHR 0x96, CHR 0xA9, CHR 0xA0], [CHR 0xF0, CHR 0x96, CHR 0xAB, CHR 0x80],
      [CHR 0xF0, CHR 0x96, CHR 0xAD, CHR 0x90], [CHR 0xF0, CHR 0x9D, CHR 0x9F, CHR 0x8E],
      [CHR 0xF0, CHR 0x9D, CHR 0x9F, CHR 0x98], [CHR 0xF0, CHR 0x9D, CHR 0x9F, CHR 0xA2],
      [CHR 0xF0, CHR 0x9D, CHR 0x9F, CHR 0xAC], [CHR 0xF0, CHR 0x9D, CHR 0x9F, CHR 0xB6],
      [CHR 0xF0, CHR 0x9E, CHR 0x85, CHR 0x80], [CHR 0xF0, CHR 0x9E, CHR 0x8B, CHR 0xB0],
      [CHR 0xF0, CHR 0x9E, CHR 0xA5, CHR 0x90], [CHR 0xF0, CHR 0x9F, CHR 0xAF, CHR 0xB0]]"

definition decimal :: "string \<Rightarrow> nat option" where
  "decimal c =
     (case find (\<lambda>z. c \<noteq> [] \<and> butlast c = butlast z \<and>
                      (of_char (last z) :: nat) \<le> of_char (last c) \<and>
                      (of_char (last c) :: nat) \<le> of_char (last z) + 9) decimal_zeros of
        None \<Rightarrow> None
      | Some z \<Rightarrow> Some (of_char (last c) - of_char (last z)))"

text \<open>
  \<^verbatim>\<open>int(s)\<close> on a string: whitespace around the number is ignored, then comes an optional
  sign, then decimal digits, where single underscores may stand between digits; anything
  else raises \<^verbatim>\<open>ValueError\<close> (here \<open>None\<close>), and so do more than 4300 digits (the limit of
  the interpreter since Python 3.11). The whitespace of \<^verbatim>\<open>int\<close> is that of \<^verbatim>\<open>str.strip\<close>
  without \<open>U+001C\<close> to \<open>U+001F\<close>.
\<close>

definition is_int_space :: "string \<Rightarrow> bool" where
  "is_int_space c =
     (is_space c \<and> c \<notin> set [[CHR 0x1C], [CHR 0x1D], [CHR 0x1E], [CHR 0x1F]])"

text \<open>The digits after the first one: \<open>acc\<close> is the value so far, \<open>u\<close> says that the character
  before was an underscore.\<close>

fun digits_from :: "int \<Rightarrow> bool \<Rightarrow> string list \<Rightarrow> int option" where
  "digits_from acc u [] = (if u then None else Some acc)"
| "digits_from acc u (c # cs) =
     (case decimal c of
        Some d \<Rightarrow> digits_from (10 * acc + int d) False cs
      | None \<Rightarrow> if c = ''_'' \<and> \<not> u then digits_from acc True cs else None)"

definition unsigned_int :: "string list \<Rightarrow> int option" where
  "unsigned_int cs =
     (case cs of
        [] \<Rightarrow> None
      | c # cs' \<Rightarrow>
          (case decimal c of Some d \<Rightarrow> digits_from (int d) False cs' | None \<Rightarrow> None))"

definition py_int :: "string \<Rightarrow> int option" where
  "py_int s =
     (case rev (dropWhile is_int_space (rev (dropWhile is_int_space (chars s)))) of
        [] \<Rightarrow> None
      | c # cs \<Rightarrow>
          if 4300 < length (filter (\<lambda>x. decimal x \<noteq> None) (c # cs)) then None
          else if c = ''-'' then map_option uminus (unsigned_int cs)
          else if c = ''+'' then unsigned_int cs
          else unsigned_int (c # cs))"

subsection \<open>Change detection\<close>

text \<open>The result of an evaluation, as \<^verbatim>\<open>_parse_llm_response\<close> builds it.\<close>

record evaluation =
  summary :: string
  score :: int
  issues :: "string list"
  follow_ups :: "string list"

text \<open>The bullet character \<open>U+2022\<close> in UTF-8.\<close>

definition bullet :: string where
  "bullet = [char_of (226 :: nat), char_of (128 :: nat), char_of (162 :: nat)]"

definition update_applicant_record :: "string \<Rightarrow> evaluation \<Rightarrow> string \<Rightarrow> unit io" where
  "update_applicant_record applicant_id evaluation_result compressed_json_text =
     catch_io
       (let json_hash = hash_json compressed_json_text in
        bind_io now_isoformat (\<lambda>evaluation_date.
        let update_data =
              [(''LLM Summary'', JStr (summary evaluation_result)),
               (''LLM Score'', JNum (of_int (score evaluation_result))),
               (''LLM Follow-Ups'',
                  JStr (join [CHR 0x0A]
                          (map (\<lambda>q. bullet @ '' '' @ q) (follow_ups evaluation_result)))),
               (''LLM Issues'',
                  JStr (if issues evaluation_result \<noteq> []
                        then join '', '' (issues evaluation_result) else ''None'')),
               (''LLM Evaluation Date'', JStr evaluation_date),
               (''Last JSON Hash'', JStr json_hash)]
        in
        bind_io (update Applicants applicant_id update_data) (\<lambda>_.
        logger INFO ''Updated applicant {applicant_id} with LLM evaluation results''
          [Str applicant_id])))
       (\<lambda>e. bind_io (logger ERROR ''Failed to update applicant record: {str(e)}'' [Exn e]) (\<lambda>_.
          raise_io e))"

definition needs_evaluation :: "string \<Rightarrow> string \<Rightarrow> bool io" where
  "needs_evaluation applicant_id current_json =
     catch_io
       (bind_io (get Applicants applicant_id) (\<lambda>applicant_record.
        if \<not> truthy (dict_get (row_fields applicant_record) ''LLM Summary'' JNull) then
          return_io True
        else
          let last_json_hash = dict_get (row_fields applicant_record) ''Last JSON Hash'' (JStr '''');
              current_json_hash = hash_json current_json
          in return_io (\<not> py_eq last_json_hash (JStr current_json_hash))))
       (\<lambda>e. bind_io (logger WARNING ''Failed to check if evaluation needed: {str(e)}'' [Exn e])
              (\<lambda>_. return_io True))"

subsection \<open>Parsing the response of the language model\<close>

datatype response_section = SummarySection | ScoreSection | IssuesSection | FollowUpsSection

text \<open>The range check of the score line, with the \<^verbatim>\<open>ValueError\<close> of \<^verbatim>\<open>int\<close> caught.\<close>

definition parse_score :: "string \<Rightarrow> int" where
  "parse_score line =
     (case py_int (strip (remove_all ''Score:'' line)) of
        None \<Rightarrow> 5
      | Some n \<Rightarrow> if n < 1 \<or> n > 10 then 5 else n)"

text \<open>One turn of the loop over the lines: the result so far and the current section.\<close>

definition parse_line ::
  "evaluation \<times> response_section option \<Rightarrow> string \<Rightarrow> evaluation \<times> response_section option" where
  "parse_line st raw_line =
     (case st of (result, current_section) \<Rightarrow>
        let line = strip raw_line in
        if startswith line ''Summary:'' then
          (result\<lparr>summary := strip (remove_all ''Summary:'' line)\<rparr>, Some SummarySection)
        else if startswith line ''Score:'' then
          (result\<lparr>score := parse_score line\<rparr>, Some ScoreSection)
        else if startswith line ''Issues:'' then
          (let issues_text = strip (remove_all ''Issues:'' line) in
           if lower issues_text \<notin> set [''none'', ''n/a'', '''']
           then result\<lparr>issues := map strip (split_on CHR '','' issues_text)\<rparr>
           else result,
           Some IssuesSection)
        else if startswith line ''Follow-Ups:'' then
          (result, Some FollowUpsSection)
        else if startswith line bullet \<and> current_section = Some FollowUpsSection then
          (let question = strip (remove_all bullet line) in
           if question \<noteq> [] then result\<lparr>follow_ups := follow_ups result @ [question]\<rparr>
           else result,
           current_section)
        else if current_section = Some SummarySection \<and> line \<noteq> [] \<and>
                \<not> (\<exists>x \<in> set [''Score:'', ''Issues:'', ''Follow-Ups:'']. startswith line x) then
          (result\<lparr>summary := summary result @ '' '' @ line\<rparr>, current_section)
        else (result, current_section))"

definition parse_llm_response :: "string option \<Rightarrow> evaluation" where
  "parse_llm_response response_text =
     (case response_text of
        None \<Rightarrow>
          \<lparr>summary = ''Error parsing LLM response'', score = 5,
           issues = [''LLM evaluation failed''],
           follow_ups = [''Please review application manually'']\<rparr>
      | Some content \<Rightarrow>
          let lines = split_on (CHR 0x0A) (strip content);
              result = fst (foldl parse_line
                         (\<lparr>summary = '''', score = 5, issues = [], follow_ups = []\<rparr>, None)
                         lines);
              result = (if length (split_words (summary result)) > 90
                        then result\<lparr>summary :=
                               join '' '' (take 75 (split_words (summary result))) @ ''...''\<rparr>
                        else result)
          in result\<lparr>follow_ups := take 3 (follow_ups result)\<rparr>)"

(*DEFS-END*)

section \<open>Notions used to state the properties\<close>

text \<open>The sub-records of an applicant in a table: what \<^verbatim>\<open>search('Applicant', applicant_id)\<close>
  finds there.\<close>

definition linked :: "table \<Rightarrow> string \<Rightarrow> state \<Rightarrow> row list" where
  "linked t applicant_id s = filter (links_to ''Applicant'' applicant_id) (rows_of t s)"

definition same_tables :: "state \<Rightarrow> state \<Rightarrow> bool" where
  "same_tables s s' =
     (applicants s' = applicants s \<and> personal_details s' = personal_details s \<and>
      work_experience s' = work_experience s \<and> salary_preferences s' = salary_preferences s)"

text \<open>The next \<open>n\<close> round trips to the store do not fail.\<close>

definition calls_succeed :: "nat \<Rightarrow> state \<Rightarrow> bool" where
  "calls_succeed n s = (True \<notin> set (take n (transport s)))"

text \<open>No round trip to the store fails, now or later.\<close>

definition reliable :: "state \<Rightarrow> bool" where
  "reliable s = (True \<notin> set (transport s))"

subsection \<open>The document of an applicant\<close>

text \<open>The document that \<^verbatim>\<open>json.loads\<close> reads from the Compressed JSON field of the applicant's
  record, when there is one.\<close>

definition document_of :: "codec \<Rightarrow> string \<Rightarrow> state \<Rightarrow> json option" where
  "document_of J applicant_id s =
     (case find (\<lambda>r. row_id r = applicant_id) (applicants s) of
        None \<Rightarrow> None
      | Some r \<Rightarrow>
          (case map_of (row_fields r) ''Compressed JSON'' of
             Some (JStr txt) \<Rightarrow> (case loads J txt of Inr D \<Rightarrow> Some D | Inl e \<Rightarrow> None)
           | _ \<Rightarrow> None))"

definition is_dict :: "json \<Rightarrow> bool" where
  "is_dict j = (case j of JObj d \<Rightarrow> True | _ \<Rightarrow> False)"

text \<open>A document the Decompressor can write out: a dictionary whose \<open>personal\<close> and
  \<open>salary\<close> sections, when present, are dictionaries and whose \<open>experience\<close> section, when
  present, is a list of dictionaries.\<close>

definition well_formed_document :: "json \<Rightarrow> bool" where
  "well_formed_document D =
     (case D of
        JObj d \<Rightarrow>
          is_dict (dict_get d ''personal'' (JObj [])) \<and>
          (case dict_get d ''experience'' (JList []) of
             JList es \<Rightarrow> list_all is_dict es
           | _ \<Rightarrow> False) \<and>
          is_dict (dict_get d ''salary'' (JObj []))
      | _ \<Rightarrow> False)"

subsection \<open>A small store for the worked examples\<close>

text \<open>A codec given by a finite table of document texts and the values they parse to.\<close>

definition table_codec :: "(string \<times> json) list \<Rightarrow> codec" where
  "table_codec tab =
     \<lparr>dumps = (\<lambda>j. case find (\<lambda>kv. snd kv = j) tab of Some kv \<Rightarrow> fst kv | None \<Rightarrow> ''{}''),
      loads = (\<lambda>txt. case map_of tab txt of Some j \<Rightarrow> Inr j | None \<Rightarrow> Inl JSONDecodeError)\<rparr>"

definition ex_personal_row :: row where
  "ex_personal_row =
     Row ''recP'' [(''Full Name'', JStr ''A''), (''Email'', JStr ''a@x.com''),
                   (''Location'', JStr ''US''), (''LinkedIn'', JStr ''''),
                   (''Applicant'', JList [JStr ''recA''])]"

definition ex_salary_row :: row where
  "ex_salary_row =
     Row ''recS'' [(''Preferred Rate'', JNum 50), (''Minimum Rate'', JNum 40),
                   (''Currency'', JStr ''USD''), (''Availability'', JNum 20),
                   (''Applicant'', JList [JStr ''recA''])]"

text \<open>Applicant \<open>recA\<close> with a Salary sub-record and no Personal sub-record.\<close>

definition ex_no_personal :: state where
  "ex_no_personal =
     \<lparr>applicants = [Row ''recA'' [(''Personal Details'', JList [JStr ''recP''])]],
      personal_details = [],
      work_experience = [],
      salary_preferences = [ex_salary_row],
      transport = [],
      clock = [''2024-05-01T10:00:00'', ''2024-05-01T10:00:01''],
      log = []\<rparr>"

text \<open>Applicant \<open>recA\<close> with both sub-records and no Experience rows.\<close>

definition ex_no_experience :: state where
  "ex_no_experience = ex_no_personal\<lparr>personal_details := [ex_personal_row]\<rparr>"

text \<open>The same applicant with both sub-records, when the fetch of the Personal sub-record,
  the fetch of the Salary sub-record, or the write to the Applicant record fails.\<close>

definition ex_fetch_error :: state where
  "ex_fetch_error = ex_no_experience\<lparr>transport := [True]\<rparr>"

definition ex_salary_fetch_error :: state where
  "ex_salary_fetch_error = ex_no_experience\<lparr>transport := [False, False, True]\<rparr>"

definition ex_update_error :: state where
  "ex_update_error = ex_no_experience\<lparr>transport := [False, False, False, True]\<rparr>"

subsection \<open>The field mappings as maps between documents and rows\<close>




text \<open>Two dictionaries are equal when they have the same keys with the same values, in
  whatever order.\<close>

definition dict_eq :: "fields \<Rightarrow> fields \<Rightarrow> bool" where
  "dict_eq a b =
     (set (map fst a) = set (map fst b) \<and> (\<forall>k \<in> set (map fst a). map_of a k = map_of b k))"






definition experience_of :: "json \<Rightarrow> json list" where
  "experience_of D =
     (case D of
        JObj d \<Rightarrow> (case map_of d ''experience'' of Some (JList es) \<Rightarrow> es | _ \<Rightarrow> [])
      | _ \<Rightarrow> [])"



text \<open>The document of the example in section 8 of the specification, with one finished
  position added.\<close>

definition ex_entry :: json where
  "ex_entry =
     JObj [(''company'', JStr ''Acme''), (''title'', JStr ''Engineer''),
           (''start'', JStr ''2019-01-01''), (''end'', JStr ''2021-06-30''),
           (''technologies'', JList [JStr ''Python'']), (''current'', JBool False)]"


text \<open>A position held now, recorded with an end date all the same.\<close>

definition ex_current_entry :: json where
  "ex_current_entry =
     JObj [(''company'', JStr ''Initech''), (''title'', JStr ''Lead''),
           (''start'', JStr ''2021-07-01''), (''end'', JStr ''2023-01-01''),
           (''technologies'', JList []), (''current'', JBool True)]"

text \<open>A document with two experience entries, stored as the text \<open>doc2\<close> on applicant
  \<open>recA\<close>, who has five Experience rows; a sixth row belongs to applicant \<open>recB\<close>.\<close>

definition ex_document2 :: json where
  "ex_document2 =
     JObj [(''personal'', JObj [(''name'', JStr ''A''), (''email'', JStr ''a@x.com''),
                                (''location'', JStr ''US''), (''linkedin'', JStr '''')]),
           (''experience'', JList [ex_entry, ex_current_entry]),
           (''salary'', JObj [(''preferred_rate'', JNum 50), (''minimum_rate'', JNum 40),
                              (''currency'', JStr ''USD''), (''availability'', JNum 20)])]"

definition ex_codec :: codec where
  "ex_codec = table_codec [(''doc2'', ex_document2)]"

definition ex_old_row :: "string \<Rightarrow> string \<Rightarrow> row" where
  "ex_old_row rid applicant_id =
     Row rid [(''Company'', JStr ''Old''), (''Title'', JStr ''Intern''),
              (''Applicant'', JList [JStr applicant_id])]"

definition ex_five_rows :: state where
  "ex_five_rows =
     \<lparr>applicants = [Row ''recA'' [(''Compressed JSON'', JStr ''doc2'')], Row ''recB'' []],
      personal_details = [ex_personal_row],
      work_experience =
        [ex_old_row ''recE1'' ''recA'', ex_old_row ''recE2'' ''recA'',
         ex_old_row ''recE3'' ''recB'', ex_old_row ''recE4'' ''recA'',
         ex_old_row ''recE5'' ''recA'', ex_old_row ''recE6'' ''recA''],
      salary_preferences = [],
      transport = [],
      clock = [''2024-05-02T09:00:00''],
      log = []\<rparr>"

subsection \<open>The lines of a response that give a score\<close>

text \<open>The lines of the response, stripped, that start with \<open>Score:\<close>, in order.\<close>

definition score_lines :: "string \<Rightarrow> string list" where
  "score_lines content =
     filter (\<lambda>line. startswith line ''Score:'')
       (map strip (split_on (CHR 0x0A) (strip content)))"

text \<open>A response with two score lines, the first out of range.\<close>

definition ex_response :: string where
  "ex_response =
     ''Summary: Seasoned engineer.'' @ [CHR 0x0A] @ ''Score: 12'' @ [CHR 0x0A] @
     ''  Score: 7 '' @ [CHR 0x0A] @ ''Issues: None''"

text \<open>Two texts of 72 characters that differ in one character.\<close>

definition collision_a :: string where
  "collision_a = ''TEXTCOLLBYfGiJUETHQ4hAcKSMd5zYpgqf1YRDhkmxHkhPWptrkoyz28wnI9V0aHeAuaKnak''"

definition collision_b :: string where
  "collision_b = ''TEXTCOLLBYfGiJUETHQ4hEcKSMd5zYpgqf1YRDhkmxHkhPWptrkoyz28wnI9V0aHeAuaKnak''"

subsection \<open>The document and the digest stored on an applicant\<close>

definition applicant_field :: "string \<Rightarrow> string \<Rightarrow> state \<Rightarrow> json option" where
  "applicant_field fld applicant_id s =
     (case find (\<lambda>r. row_id r = applicant_id) (applicants s) of
        None \<Rightarrow> None
      | Some r \<Rightarrow> map_of (row_fields r) fld)"

definition stored_document :: "string \<Rightarrow> state \<Rightarrow> json option" where
  "stored_document applicant_id s = applicant_field ''Compressed JSON'' applicant_id s"

definition stored_hash :: "string \<Rightarrow> state \<Rightarrow> json option" where
  "stored_hash applicant_id s = applicant_field ''Last JSON Hash'' applicant_id s"

text \<open>The stored digest is the digest of the stored document.\<close>

definition digest_current :: "string \<Rightarrow> state \<Rightarrow> bool" where
  "digest_current applicant_id s =
     (case stored_document applicant_id s of
        Some (JStr d) \<Rightarrow> stored_hash applicant_id s = Some (JStr (hash_json d))
      | _ \<Rightarrow> False)"

text \<open>An evaluation, and the document of applicant \<open>recA\<close> in the store \<open>ex_no_experience\<close>
  with the text \<open>doc1\<close> it is written as.\<close>

definition ex_evaluation :: evaluation where
  "ex_evaluation =
     \<lparr>summary = ''Seasoned engineer.'', score = 7, issues = [], follow_ups = []\<rparr>"

definition ex_codec1 :: codec where
  "ex_codec1 =
     table_codec
       [(''doc1'', compressed_json (row_fields ex_personal_row) [] (row_fields ex_salary_row)
                     ''2024-05-01T10:00:00'')]"

text \<open>Applicant \<open>recA\<close> with the document text \<open>doc1\<close> stored.\<close>

definition ex_compressed :: state where
  "ex_compressed =
     ex_no_experience
       \<lparr>applicants := [Row ''recA'' [(''Personal Details'', JList [JStr ''recP'']),
                                      (''Compressed JSON'', JStr ''doc1'')]]\<rparr>"

subsection \<open>What a run wrote to the log\<close>

text \<open>The placeholder values of the log entries with a given format string, in order.\<close>

definition logged :: "string \<Rightarrow> log_entry list \<Rightarrow> arg list list" where
  "logged fmt l = map (\<lambda>e. snd (snd e)) (filter (\<lambda>e. fst (snd e) = fmt) l)"

text \<open>Every state change of the action appends to the log, and only entries that
  satisfy \<open>P\<close>.\<close>

definition log_only :: "(log_entry \<Rightarrow> bool) \<Rightarrow> 'a io \<Rightarrow> bool" where
  "log_only P m = (\<forall>s r s'. m s = (r, s') \<longrightarrow> (\<exists>l. log s' = log s @ l \<and> list_all P l))"

text \<open>The format strings of the log entries that tell how the batch went.\<close>

definition fmt_start_compression :: string where
  "fmt_start_compression = ''Starting compression for applicant {applicant_id}''"

definition fmt_compressed :: string where
  "fmt_compressed = ''Successfully compressed data for applicant {applicant_id}''"

definition fmt_compress_raised :: string where
  "fmt_compress_raised = ''Failed to compress data for applicant {applicant_id}: {str(e)}''"

definition fmt_compress_reported :: string where
  "fmt_compress_reported = ''Failed to compress applicant {applicant_id}: {str(e)}''"

definition fmt_start_decompression :: string where
  "fmt_start_decompression = ''Starting decompression for applicant {applicant_id}''"

definition fmt_decompress_reported :: string where
  "fmt_decompress_reported = ''Failed to decompress applicant {applicant_id}: {str(e)}''"

text \<open>The first call to the store succeeds.\<close>

definition first_call_succeeds :: "state \<Rightarrow> bool" where
  "first_call_succeeds s = (case transport s of [] \<Rightarrow> True | b # bs \<Rightarrow> \<not> b)"

text \<open>Three pending applicants, each with a Personal and a Salary sub-record; of the nine
  round trips of the batch the last one of the second applicant, the write of the document,
  fails.\<close>

definition ex_sub_row :: "string \<Rightarrow> string \<Rightarrow> row" where
  "ex_sub_row rid applicant_id =
     Row rid [(''Currency'', JStr ''USD''), (''Applicant'', JList [JStr applicant_id])]"

definition ex_batch :: state where
  "ex_batch =
     \<lparr>applicants =
        [Row ''recA'' [(''Personal Details'', JList [JStr ''recP1''])],
         Row ''recB'' [(''Personal Details'', JList [JStr ''recP2''])],
         Row ''recC'' [(''Personal Details'', JList [JStr ''recP3''])]],
      personal_details =
        [ex_sub_row ''recP1'' ''recA'', ex_sub_row ''recP2'' ''recB'',
         ex_sub_row ''recP3'' ''recC''],
      work_experience = [],
      salary_preferences =
        [ex_sub_row ''recS1'' ''recA'', ex_sub_row ''recS2'' ''recB'',
         ex_sub_row ''recS3'' ''recC''],
      transport = [False, False, False, False, False, False, False, False, True],
      clock = [],
      log = []\<rparr>"

text \<open>The log entries of the fetches are none of the entries that tell how the batch
  went.\<close>

definition compression_silent :: "log_entry \<Rightarrow> bool" where
  "compression_silent e =
     (fst (snd e) \<notin> {fmt_start_compression, fmt_compressed, fmt_compress_raised,
                       fmt_compress_reported})"

text \<open>Likewise for the Decompressor: the entries other than the start of an applicant and the
  report at the loop boundary.\<close>

definition decompression_silent :: "log_entry \<Rightarrow> bool" where
  "decompression_silent e =
     (fst (snd e) \<notin> {fmt_start_decompression, fmt_decompress_reported})"

(*NOTIONS-END*)

section \<open>Basic facts\<close>

lemma same_tables_refl: "same_tables s s"
  by (simp add: same_tables_def)

lemma same_tables_trans: "same_tables s s' \<Longrightarrow> same_tables s' s'' \<Longrightarrow> same_tables s s''"
  by (simp add: same_tables_def)

lemma same_tables_linked: "same_tables s s' \<Longrightarrow> linked t a s' = linked t a s"
  by (cases t) (simp_all add: same_tables_def linked_def)

lemma calls_succeed_tl:
  "calls_succeed (Suc n) s \<Longrightarrow> calls_succeed n (s\<lparr>transport := tl (transport s)\<rparr>)"
  by (cases "transport s") (auto simp: calls_succeed_def)

lemma remote_call_ok:
  assumes "calls_succeed (Suc n) s"
  shows "remote_call m s = m (s\<lparr>transport := tl (transport s)\<rparr>)"
proof (cases "transport s")
  case Nil
  then have e: "s\<lparr>transport := []\<rparr> = s"
    by (cases s) auto
  show ?thesis
    by (simp add: remote_call_def Nil e)
next
  case (Cons b bs)
  with assms show ?thesis
    by (auto simp: remote_call_def calls_succeed_def)
qed

lemma calls_succeed_mono: "calls_succeed n s \<Longrightarrow> m \<le> n \<Longrightarrow> calls_succeed m s"
  by (auto simp: calls_succeed_def dest: set_take_subset_set_take [THEN subsetD])

subsection \<open>The fetches of the Compressor never raise and never write\<close>

lemma fetch_personal_data_total:
  "\<exists>r s'. fetch_personal_data a s = (Inr r, s') \<and> same_tables s s' \<and>
     (linked PersonalDetails a s = [] \<longrightarrow> r = None)"
  by (auto simp: fetch_personal_data_def catch_io_def bind_io_def search_def remote_call_def
      return_io_def logger_def same_tables_def linked_def split: list.splits)

lemma fetch_salary_data_total:
  "\<exists>r s'. fetch_salary_data a s = (Inr r, s') \<and> same_tables s s' \<and>
     (linked SalaryPreferences a s = [] \<longrightarrow> r = None)"
  by (auto simp: fetch_salary_data_def catch_io_def bind_io_def search_def remote_call_def
      return_io_def logger_def same_tables_def linked_def split: list.splits)

lemma fetch_experience_data_total:
  "\<exists>r s'. fetch_experience_data a s = (Inr r, s') \<and> same_tables s s'"
  by (auto simp: fetch_experience_data_def catch_io_def bind_io_def search_def remote_call_def
      return_io_def logger_def same_tables_def linked_def split: list.splits)

lemma compress_missing:
  assumes "linked PersonalDetails a s = [] \<or> linked SalaryPreferences a s = []"
  shows "\<exists>s'. compress_applicant_data J a s =
      (Inr None, s'\<lparr>log := log s' @
         [(ERROR, ''Missing required data for applicant {applicant_id}'', [Str a])]\<rparr>) \<and>
      same_tables s s'"
proof -
  define s0 where
    "s0 = s\<lparr>log := log s @ [(INFO, ''Starting compression for applicant {applicant_id}'', [Str a])]\<rparr>"
  have t0: "same_tables s s0"
    by (simp add: s0_def same_tables_def)
  obtain p s1 where p: "fetch_personal_data a s0 = (Inr p, s1)" "same_tables s0 s1"
    "linked PersonalDetails a s0 = [] \<longrightarrow> p = None"
    using fetch_personal_data_total by blast
  obtain e s2 where e: "fetch_experience_data a s1 = (Inr e, s2)" "same_tables s1 s2"
    using fetch_experience_data_total by blast
  obtain q s3 where q: "fetch_salary_data a s2 = (Inr q, s3)" "same_tables s2 s3"
    "linked SalaryPreferences a s2 = [] \<longrightarrow> q = None"
    using fetch_salary_data_total by blast
  have "p = None \<or> q = None"
    using assms p(3) q(3) t0 p(2) e(2) by (auto simp: linked_def same_tables_def)
  then have na: "\<not> all_present p q"
    by (auto simp: all_present_def split: option.splits)
  have "compress_applicant_data J a s =
      (Inr None, s3\<lparr>log := log s3 @
         [(ERROR, ''Missing required data for applicant {applicant_id}'', [Str a])]\<rparr>)"
    using p(1) e(1) q(1) na
    by (simp add: compress_applicant_data_def catch_io_def bind_io_def logger_def return_io_def
        s0_def)
  moreover have "same_tables s s3"
    using t0 p(2) e(2) q(2) by (auto simp: same_tables_def)
  ultimately show ?thesis
    by blast
qed

subsection \<open>A run of the Compressor when the store answers\<close>

lemma search_ok:
  assumes "calls_succeed (Suc n) s"
  shows "search t ''Applicant'' a s = (Inr (linked t a s), s\<lparr>transport := tl (transport s)\<rparr>)"
  by (cases t) (simp_all add: search_def linked_def remote_call_ok [OF assms])

lemma calls_succeed_log [simp]: "calls_succeed n (s\<lparr>log := l\<rparr>) = calls_succeed n s"
  by (simp add: calls_succeed_def)
lemma calls_succeed_clock [simp]: "calls_succeed n (s\<lparr>clock := l\<rparr>) = calls_succeed n s"
  by (simp add: calls_succeed_def)

lemma linked_log [simp]: "linked t a (s\<lparr>log := l\<rparr>) = linked t a s"
  by (cases t) (simp_all add: linked_def)
lemma linked_clock [simp]: "linked t a (s\<lparr>clock := l\<rparr>) = linked t a s"
  by (cases t) (simp_all add: linked_def)
lemma linked_transport [simp]: "linked t a (s\<lparr>transport := l\<rparr>) = linked t a s"
  by (cases t) (simp_all add: linked_def)

lemma fetch_personal_data_ok:
  assumes "calls_succeed (Suc n) s"
  shows "fetch_personal_data a s =
      (Inr (case linked PersonalDetails a s of [] \<Rightarrow> None | r # _ \<Rightarrow> Some (row_fields r)),
       s\<lparr>transport := tl (transport s)\<rparr>)"
  using search_ok [OF assms, of PersonalDetails a]
  by (simp add: fetch_personal_data_def catch_io_def bind_io_def return_io_def split: list.splits)

lemma fetch_salary_data_ok:
  assumes "calls_succeed (Suc n) s"
  shows "fetch_salary_data a s =
      (Inr (case linked SalaryPreferences a s of [] \<Rightarrow> None | r # _ \<Rightarrow> Some (row_fields r)),
       s\<lparr>transport := tl (transport s)\<rparr>)"
  using search_ok [OF assms, of SalaryPreferences a]
  by (simp add: fetch_salary_data_def catch_io_def bind_io_def return_io_def split: list.splits)

lemma fetch_experience_data_ok:
  assumes "calls_succeed (Suc n) s"
  shows "fetch_experience_data a s =
      (Inr (map row_fields (linked WorkExperience a s)), s\<lparr>transport := tl (transport s)\<rparr>)"
  using search_ok [OF assms, of WorkExperience a]
  by (simp add: fetch_experience_data_def catch_io_def bind_io_def return_io_def)

lemma linked_fields_nonempty: "r \<in> set (linked t a s) \<Longrightarrow> row_fields r \<noteq> []"
  by (auto simp: linked_def links_to_def)

lemma now_isoformat_eq:
  "now_isoformat s = (Inr (case clock s of [] \<Rightarrow> [] | t # _ \<Rightarrow> t), s\<lparr>clock := tl (clock s)\<rparr>)"
proof (cases "clock s")
  case Nil
  then have e: "s\<lparr>clock := []\<rparr> = s"
    by (cases s) auto
  show ?thesis
    by (simp add: now_isoformat_def Nil e)
next
  case (Cons t ts)
  then show ?thesis
    by (simp add: now_isoformat_def)
qed

lemma update_ok:
  assumes "calls_succeed (Suc n) s" and "rid \<in> set (map row_id (rows_of t s))"
  shows "update t rid flds s =
      (Inr (), set_rows t
            (map (\<lambda>r. if row_id r = rid then Row rid (dict_update (row_fields r) flds) else r)
               (rows_of t s)) (s\<lparr>transport := tl (transport s)\<rparr>))"
  using assms(2) by (cases t) (simp_all add: update_def remote_call_ok [OF assms(1)])


lemma compress_ok:
  assumes ok: "calls_succeed 4 s"
    and p: "linked PersonalDetails a s = p # ps"
    and q: "linked SalaryPreferences a s = q # qs"
    and a: "a \<in> set (map row_id (applicants s))"
  shows "\<exists>t1 t2 s'.
     compress_applicant_data J a s =
       (Inr (Some (compressed_json (row_fields p) (map row_fields (linked WorkExperience a s))
                     (row_fields q) t1)), s') \<and>
     applicants s' =
       map (\<lambda>r. if row_id r = a then Row a (dict_update (row_fields r)
            [(''Compressed JSON'', JStr (dumps J (compressed_json (row_fields p)
                 (map row_fields (linked WorkExperience a s)) (row_fields q) t1))),
             (''Last Compressed'', JStr t2)]) else r) (applicants s) \<and>
     personal_details s' = personal_details s \<and> work_experience s' = work_experience s \<and>
     salary_preferences s' = salary_preferences s"
proof -
  define s0 where
    "s0 = s\<lparr>log := log s @ [(INFO, ''Starting compression for applicant {applicant_id}'', [Str a])]\<rparr>"
  define s1 where "s1 = s0\<lparr>transport := tl (transport s0)\<rparr>"
  define s2 where "s2 = s1\<lparr>transport := tl (transport s1)\<rparr>"
  define s3 where "s3 = s2\<lparr>transport := tl (transport s2)\<rparr>"
  define s4 where "s4 = s3\<lparr>clock := tl (clock s3)\<rparr>"
  define s5 where "s5 = s4\<lparr>clock := tl (clock s4)\<rparr>"
  define t1 where "t1 = (case clock s3 of [] \<Rightarrow> [] | t # _ \<Rightarrow> t)"
  define t2 where "t2 = (case clock s4 of [] \<Rightarrow> [] | t # _ \<Rightarrow> t)"
  define doc where "doc = compressed_json (row_fields p)
      (map row_fields (linked WorkExperience a s)) (row_fields q) t1"
  define flds where "flds = [(''Compressed JSON'', JStr (dumps J doc)), (''Last Compressed'', JStr t2)]"
  have c0: "calls_succeed (Suc (Suc (Suc (Suc 0)))) s0"
    using ok by (simp add: s0_def eval_nat_numeral)
  have c1: "calls_succeed (Suc (Suc (Suc 0))) s1"
    unfolding s1_def by (rule calls_succeed_tl [OF c0])
  have c2: "calls_succeed (Suc (Suc 0)) s2"
    unfolding s2_def by (rule calls_succeed_tl [OF c1])
  have c3: "calls_succeed (Suc 0) s3"
    unfolding s3_def by (rule calls_succeed_tl [OF c2])
  have c5: "calls_succeed (Suc 0) s5"
    using c3 by (simp add: s5_def s4_def)
  have f1: "fetch_personal_data a s0 = (Inr (Some (row_fields p)), s1)"
    using fetch_personal_data_ok [OF c0, of a] p by (simp add: s1_def s0_def)
  have f2: "fetch_experience_data a s1 = (Inr (map row_fields (linked WorkExperience a s)), s2)"
    using fetch_experience_data_ok [OF c1, of a] by (simp add: s2_def s1_def s0_def)
  have f3: "fetch_salary_data a s2 = (Inr (Some (row_fields q)), s3)"
    using fetch_salary_data_ok [OF c2, of a] q by (simp add: s3_def s2_def s1_def s0_def)
  have n1: "now_isoformat s3 = (Inr t1, s4)"
    by (simp add: now_isoformat_eq t1_def s4_def)
  have n2: "now_isoformat s4 = (Inr t2, s5)"
    by (simp add: now_isoformat_eq t2_def s5_def)
  have apps: "applicants s5 = applicants s"
    by (simp add: s5_def s4_def s3_def s2_def s1_def s0_def)
  have a5: "a \<in> set (map row_id (rows_of Applicants s5))"
    using a apps by simp
  define s6 where "s6 = set_rows Applicants
            (map (\<lambda>r. if row_id r = a then Row a (dict_update (row_fields r) flds) else r)
               (rows_of Applicants s5)) (s5\<lparr>transport := tl (transport s5)\<rparr>)"
  have u: "update Applicants a flds s5 = (Inr (), s6)"
    unfolding s6_def by (rule update_ok [OF c5 a5])
  have pres: "all_present (Some (row_fields p)) (Some (row_fields q))"
    using p q linked_fields_nonempty [of p PersonalDetails a s]
      linked_fields_nonempty [of q SalaryPreferences a s]
    by (simp add: all_present_def)
  have res: "compress_applicant_data J a s =
      (Inr (Some doc), s6\<lparr>log := log s6 @
         [(INFO, ''Successfully compressed data for applicant {applicant_id}'', [Str a])]\<rparr>)"
    unfolding compress_applicant_data_def
    using f1 f2 f3 n1 n2 u pres
    by (simp add: catch_io_def bind_io_def logger_def return_io_def s0_def [symmetric]
        doc_def [symmetric] flds_def [symmetric] Let_def)
  have tabs: "applicants s6 =
        map (\<lambda>r. if row_id r = a then Row a (dict_update (row_fields r) flds) else r) (applicants s)"
    "personal_details s6 = personal_details s" "work_experience s6 = work_experience s"
    "salary_preferences s6 = salary_preferences s"
    by (simp_all add: s6_def s5_def s4_def s3_def s2_def s1_def s0_def)
  show ?thesis
    using res tabs unfolding doc_def flds_def by auto
qed

subsection \<open>A run of the Compressor when a round trip fails\<close>

lemma remote_call_fail:
  "transport s = True # bs \<Longrightarrow> remote_call m s = (Inl ConnectionError, s\<lparr>transport := bs\<rparr>)"
  by (simp add: remote_call_def)

lemma fetch_personal_data_fail:
  "transport s = True # bs \<Longrightarrow>
   fetch_personal_data a s =
     (Inr None, s\<lparr>transport := bs, log := log s @
        [(ERROR, ''Failed to fetch personal data: {str(e)}'', [Exn ConnectionError])]\<rparr>)"
  by (simp add: fetch_personal_data_def catch_io_def bind_io_def search_def remote_call_fail
      logger_def return_io_def)

lemma fetch_salary_data_fail:
  "transport s = True # bs \<Longrightarrow>
   fetch_salary_data a s =
     (Inr None, s\<lparr>transport := bs, log := log s @
        [(ERROR, ''Failed to fetch salary data: {str(e)}'', [Exn ConnectionError])]\<rparr>)"
  by (simp add: fetch_salary_data_def catch_io_def bind_io_def search_def remote_call_fail
      logger_def return_io_def)

lemma fetch_experience_data_log:
  "\<exists>r s'. fetch_experience_data a s = (Inr r, s') \<and> prefix (log s) (log s') \<and>
     transport s' = tl (transport s)"
  by (auto simp: fetch_experience_data_def catch_io_def bind_io_def search_def remote_call_def
      return_io_def logger_def split: list.splits)

lemma fetch_salary_data_log:
  "\<exists>r s'. fetch_salary_data a s = (Inr r, s') \<and> prefix (log s) (log s') \<and>
     transport s' = tl (transport s)"
  by (auto simp: fetch_salary_data_def catch_io_def bind_io_def search_def remote_call_def
      return_io_def logger_def split: list.splits)

lemma fetch_personal_data_log:
  "\<exists>r s'. fetch_personal_data a s = (Inr r, s') \<and> prefix (log s) (log s') \<and>
     transport s' = tl (transport s)"
  by (auto simp: fetch_personal_data_def catch_io_def bind_io_def search_def remote_call_def
      return_io_def logger_def split: list.splits)

lemma compress_personal_fetch_fails:
  assumes "transport s = True # bs"
  shows "\<exists>s'. compress_applicant_data J a s = (Inr None, s') \<and>
     (ERROR, ''Failed to fetch personal data: {str(e)}'', [Exn ConnectionError]) \<in> set (log s')"
proof -
  define s0 where
    "s0 = s\<lparr>log := log s @ [(INFO, ''Starting compression for applicant {applicant_id}'', [Str a])]\<rparr>"
  define s1 where "s1 = s0\<lparr>transport := bs, log := log s0 @
        [(ERROR, ''Failed to fetch personal data: {str(e)}'', [Exn ConnectionError])]\<rparr>"
  have f1: "fetch_personal_data a s0 = (Inr None, s1)"
    unfolding s1_def by (rule fetch_personal_data_fail) (simp add: s0_def assms)
  obtain e s2 where f2: "fetch_experience_data a s1 = (Inr e, s2)" "prefix (log s1) (log s2)"
    using fetch_experience_data_log by blast
  obtain q s3 where f3: "fetch_salary_data a s2 = (Inr q, s3)" "prefix (log s2) (log s3)"
    using fetch_salary_data_log by blast
  have "compress_applicant_data J a s = (Inr None, s3\<lparr>log := log s3 @
         [(ERROR, ''Missing required data for applicant {applicant_id}'', [Str a])]\<rparr>)"
    using f1 f2(1) f3(1)
    by (simp add: compress_applicant_data_def catch_io_def bind_io_def logger_def return_io_def
        s0_def [symmetric] all_present_def)
  moreover have "(ERROR, ''Failed to fetch personal data: {str(e)}'', [Exn ConnectionError])
      \<in> set (log s3)"
    using f2(2) f3(2) by (auto simp: s1_def prefix_def)
  ultimately show ?thesis
    by auto
qed

lemma compress_salary_fetch_fails:
  assumes "transport s = b1 # b2 # True # bs"
  shows "\<exists>s'. compress_applicant_data J a s = (Inr None, s') \<and>
     (ERROR, ''Failed to fetch salary data: {str(e)}'', [Exn ConnectionError]) \<in> set (log s')"
proof -
  define s0 where
    "s0 = s\<lparr>log := log s @ [(INFO, ''Starting compression for applicant {applicant_id}'', [Str a])]\<rparr>"
  obtain p s1 where f1: "fetch_personal_data a s0 = (Inr p, s1)" "transport s1 = tl (transport s0)"
    using fetch_personal_data_log by blast
  obtain e s2 where f2: "fetch_experience_data a s1 = (Inr e, s2)" "transport s2 = tl (transport s1)"
    using fetch_experience_data_log by blast
  have t2: "transport s2 = True # bs"
    using f1(2) f2(2) assms by (simp add: s0_def)
  have "compress_applicant_data J a s = (Inr None, s2\<lparr>transport := bs, log := (log s2 @
        [(ERROR, ''Failed to fetch salary data: {str(e)}'', [Exn ConnectionError])]) @
         [(ERROR, ''Missing required data for applicant {applicant_id}'', [Str a])]\<rparr>)"
    using f1(1) f2(1) fetch_salary_data_fail [OF t2, of a]
    by (simp add: compress_applicant_data_def catch_io_def bind_io_def logger_def return_io_def
        s0_def [symmetric] all_present_def split: option.splits)
  then show ?thesis
    by auto
qed

lemma compress_absent_log:
  assumes ok: "calls_succeed 3 s"
    and ab: "linked PersonalDetails a s = [] \<or> linked SalaryPreferences a s = []"
  shows "\<exists>s'. compress_applicant_data J a s = (Inr None, s') \<and>
     log s' = log s @ [(INFO, ''Starting compression for applicant {applicant_id}'', [Str a]),
                       (ERROR, ''Missing required data for applicant {applicant_id}'', [Str a])]"
proof -
  define s0 where
    "s0 = s\<lparr>log := log s @ [(INFO, ''Starting compression for applicant {applicant_id}'', [Str a])]\<rparr>"
  define s1 where "s1 = s0\<lparr>transport := tl (transport s0)\<rparr>"
  define s2 where "s2 = s1\<lparr>transport := tl (transport s1)\<rparr>"
  define s3 where "s3 = s2\<lparr>transport := tl (transport s2)\<rparr>"
  have c0: "calls_succeed (Suc (Suc (Suc 0))) s0"
    using ok by (simp add: s0_def eval_nat_numeral)
  have c1: "calls_succeed (Suc (Suc 0)) s1"
    unfolding s1_def by (rule calls_succeed_tl [OF c0])
  have c2: "calls_succeed (Suc 0) s2"
    unfolding s2_def by (rule calls_succeed_tl [OF c1])
  have f1: "fetch_personal_data a s0 =
      (Inr (case linked PersonalDetails a s of [] \<Rightarrow> None | r # _ \<Rightarrow> Some (row_fields r)), s1)"
    using fetch_personal_data_ok [OF c0, of a] by (simp add: s1_def s0_def)
  have f2: "fetch_experience_data a s1 = (Inr (map row_fields (linked WorkExperience a s)), s2)"
    using fetch_experience_data_ok [OF c1, of a] by (simp add: s2_def s1_def s0_def)
  have f3: "fetch_salary_data a s2 =
      (Inr (case linked SalaryPreferences a s of [] \<Rightarrow> None | r # _ \<Rightarrow> Some (row_fields r)), s3)"
    using fetch_salary_data_ok [OF c2, of a] by (simp add: s3_def s2_def s1_def s0_def)
  have na: "\<not> all_present
      (case linked PersonalDetails a s of [] \<Rightarrow> None | r # _ \<Rightarrow> Some (row_fields r))
      (case linked SalaryPreferences a s of [] \<Rightarrow> None | r # _ \<Rightarrow> Some (row_fields r))"
    using ab by (auto simp: all_present_def split: option.splits)
  have "compress_applicant_data J a s = (Inr None, s3\<lparr>log := log s3 @
         [(ERROR, ''Missing required data for applicant {applicant_id}'', [Str a])]\<rparr>)"
    using f1 f2 f3 na
    by (simp add: compress_applicant_data_def catch_io_def bind_io_def logger_def return_io_def
        s0_def [symmetric])
  then show ?thesis
    by (simp add: s3_def s2_def s1_def s0_def)
qed

lemma compress_update_fails:
  assumes tr: "transport s = False # False # False # True # bs"
    and p: "linked PersonalDetails a s = p # ps"
    and q: "linked SalaryPreferences a s = q # qs"
  shows "fst (compress_applicant_data J a s) = Inl ConnectionError \<and>
     same_tables s (snd (compress_applicant_data J a s))"
proof -
  define s0 where
    "s0 = s\<lparr>log := log s @ [(INFO, ''Starting compression for applicant {applicant_id}'', [Str a])]\<rparr>"
  define s1 where "s1 = s0\<lparr>transport := tl (transport s0)\<rparr>"
  define s2 where "s2 = s1\<lparr>transport := tl (transport s1)\<rparr>"
  define s3 where "s3 = s2\<lparr>transport := tl (transport s2)\<rparr>"
  define s4 where "s4 = s3\<lparr>clock := tl (clock s3)\<rparr>"
  define s5 where "s5 = s4\<lparr>clock := tl (clock s4)\<rparr>"
  define t1 where "t1 = (case clock s3 of [] \<Rightarrow> [] | t # _ \<Rightarrow> t)"
  define t2 where "t2 = (case clock s4 of [] \<Rightarrow> [] | t # _ \<Rightarrow> t)"
  have c0: "calls_succeed (Suc (Suc (Suc 0))) s0"
    using tr by (simp add: s0_def calls_succeed_def)
  have c1: "calls_succeed (Suc (Suc 0)) s1"
    unfolding s1_def by (rule calls_succeed_tl [OF c0])
  have c2: "calls_succeed (Suc 0) s2"
    unfolding s2_def by (rule calls_succeed_tl [OF c1])
  have f1: "fetch_personal_data a s0 = (Inr (Some (row_fields p)), s1)"
    using fetch_personal_data_ok [OF c0, of a] p by (simp add: s1_def s0_def)
  have f2: "fetch_experience_data a s1 = (Inr (map row_fields (linked WorkExperience a s)), s2)"
    using fetch_experience_data_ok [OF c1, of a] by (simp add: s2_def s1_def s0_def)
  have f3: "fetch_salary_data a s2 = (Inr (Some (row_fields q)), s3)"
    using fetch_salary_data_ok [OF c2, of a] q by (simp add: s3_def s2_def s1_def s0_def)
  have n1: "now_isoformat s3 = (Inr t1, s4)"
    by (simp add: now_isoformat_eq t1_def s4_def)
  have n2: "now_isoformat s4 = (Inr t2, s5)"
    by (simp add: now_isoformat_eq t2_def s5_def)
  have t5: "transport s5 = True # bs"
    using tr by (simp add: s5_def s4_def s3_def s2_def s1_def s0_def)
  have u: "update Applicants a flds s5 = (Inl ConnectionError, s5\<lparr>transport := bs\<rparr>)" for flds
    unfolding update_def by (rule remote_call_fail [OF t5])
  have pres: "all_present (Some (row_fields p)) (Some (row_fields q))"
    using p q linked_fields_nonempty [of p PersonalDetails a s]
      linked_fields_nonempty [of q SalaryPreferences a s]
    by (simp add: all_present_def)
  have res: "compress_applicant_data J a s =
      (Inl ConnectionError, s5\<lparr>transport := bs, log := log s5 @
         [(ERROR, ''Failed to compress data for applicant {applicant_id}: {str(e)}'',
            [Str a, Exn ConnectionError])]\<rparr>)"
    unfolding compress_applicant_data_def
    using f1 f2 f3 n1 n2 u pres
    by (simp add: catch_io_def bind_io_def logger_def return_io_def raise_io_def
        s0_def [symmetric] Let_def)
  show ?thesis
    by (simp add: res same_tables_def s5_def s4_def s3_def s2_def s1_def s0_def)
qed

subsection \<open>The field mappings undo each other\<close>


lemma dict_eq_refl: "dict_eq a a"
  by (simp add: dict_eq_def)





subsection \<open>A run of the Decompressor when the store answers\<close>

lemma reliable_calls: "reliable s \<Longrightarrow> calls_succeed n s"
  by (auto simp: reliable_def calls_succeed_def dest: in_set_takeD)

lemma reliable_tl: "reliable s \<Longrightarrow> reliable (s\<lparr>transport := tl (transport s)\<rparr>)"
  by (cases "transport s") (auto simp: reliable_def)

lemma reliable_drop: "reliable s \<Longrightarrow> reliable (s\<lparr>transport := drop n (transport s)\<rparr>)"
  by (auto simp: reliable_def dest: in_set_dropD)

lemma reliable_upd [simp]:
  "reliable (s\<lparr>log := l\<rparr>) = reliable s"
  "reliable (s\<lparr>clock := c\<rparr>) = reliable s"
  "reliable (s\<lparr>applicants := rs\<rparr>) = reliable s"
  "reliable (s\<lparr>personal_details := rs\<rparr>) = reliable s"
  "reliable (s\<lparr>work_experience := rs\<rparr>) = reliable s"
  "reliable (s\<lparr>salary_preferences := rs\<rparr>) = reliable s"
  by (simp_all add: reliable_def)

lemma reliable_set_rows [simp]: "reliable (set_rows t rs s) = reliable s"
  by (cases t) simp_all

lemma remote_call_reliable:
  "reliable s \<Longrightarrow> remote_call m s = m (s\<lparr>transport := tl (transport s)\<rparr>)"
  by (rule remote_call_ok [of 0]) (rule reliable_calls)

lemma search_reliable:
  "reliable s \<Longrightarrow>
   search t ''Applicant'' a s = (Inr (linked t a s), s\<lparr>transport := tl (transport s)\<rparr>)"
  by (rule search_ok [of 0]) (rule reliable_calls)

lemma update_reliable:
  assumes "reliable s" and "rid \<in> row_id ` set (rows_of t s)"
  shows "update t rid flds s =
      (Inr (), set_rows t
            (map (\<lambda>r. if row_id r = rid then Row rid (dict_update (row_fields r) flds) else r)
               (rows_of t s)) (s\<lparr>transport := tl (transport s)\<rparr>))"
  using assms(2) by (intro update_ok [of 0] reliable_calls assms(1)) simp

lemma linked_subset: "set (linked t a s) \<subseteq> set (rows_of t s)"
  by (auto simp: linked_def)

lemma get_reliable:
  assumes "reliable s" and "find (\<lambda>r. row_id r = rid) (rows_of t s) = Some r"
  shows "get t rid s = (Inr r, s\<lparr>transport := tl (transport s)\<rparr>)"
  using assms(2) by (cases t) (simp_all add: get_def remote_call_reliable [OF assms(1)])

subsection \<open>The score of a parsed response\<close>

text \<open>On a character of one byte the tables come down to the ASCII ones.\<close>

lemma chars_one_byte: "(of_char b :: nat) < 0xC0 \<Longrightarrow> chars (b # bs) = [b] # chars bs"
  by (simp add: char_width_def)

lemma is_space_one_byte:
  "is_space [c] =
     (c \<in> set [CHR 0x09, CHR 0x0A, CHR 0x0B, CHR 0x0C, CHR 0x0D, CHR 0x1C, CHR 0x1D, CHR 0x1E,
               CHR 0x1F, CHR 0x20])"
  by (simp add: is_space_def whitespace_def)

lemma is_int_space_one_byte:
  "is_int_space [c] = (c \<in> set [CHR 0x09, CHR 0x0A, CHR 0x0B, CHR 0x0C, CHR 0x0D, CHR 0x20])"
  by (auto simp: is_int_space_def is_space_one_byte)

lemma decimal_one_byte:
  "decimal [c] =
     (if 48 \<le> (of_char c :: nat) \<and> (of_char c :: nat) \<le> 57 then Some (of_char c - 48)
      else None)"
  by (simp add: decimal_def decimal_zeros_def)

lemma summary_not_score: "startswith l ''Summary:'' \<Longrightarrow> \<not> startswith l ''Score:''"
proof
  assume a: "startswith l ''Summary:''" and b: "startswith l ''Score:''"
  from a obtain r where "l = ''Summary:'' @ r"
    unfolding startswith_def by (metis append_take_drop_id)
  with b show False
    by (simp add: startswith_def)
qed

lemma parse_score_range: "1 \<le> parse_score l \<and> parse_score l \<le> 10"
  by (simp add: parse_score_def split: option.splits)

lemma parse_line_score:
  "score (fst (parse_line st l)) =
     (if startswith (strip l) ''Score:'' then parse_score (strip l) else score (fst st))"
  using summary_not_score [of "strip l"]
  by (cases st) (simp add: parse_line_def Let_def)

lemma foldl_parse_line_score:
  "score (fst (foldl parse_line st ls)) =
     (case filter (\<lambda>line. startswith line ''Score:'') (map strip ls) of
        [] \<Rightarrow> score (fst st)
      | x # xs \<Rightarrow> parse_score (last (x # xs)))"
proof (induction ls arbitrary: st)
  case Nil
  then show ?case by simp
next
  case (Cons l ls)
  show ?case
    by (simp add: Cons.IH parse_line_score split: list.splits)
qed

lemma parse_llm_response_score:
  "score (parse_llm_response (Some content)) =
     (case score_lines content of [] \<Rightarrow> 5 | x # xs \<Rightarrow> parse_score (last (x # xs)))"
  by (simp add: parse_llm_response_def Let_def foldl_parse_line_score score_lines_def
      split: list.splits)

lemma ex_score_lines: "score_lines ex_response = [''Score: 12'', ''Score: 7'']"
  by (simp add: score_lines_def ex_response_def strip_def chars_one_byte is_space_one_byte
      startswith_def del: chars.simps(2))

(*MD5-BEGIN*)
subsection \<open>The digest of the two texts\<close>

text \<open>The sixty-four step indices, round by round.\<close>

lemma upt_round1: "[0..<16] = [0, 1, 2, 3, 4, 5, 6, 7, 8, 9, 10, 11, 12, 13, 14, 15]"
  by (simp add: upt_rec)

lemma upt_round2: "[16..<32] = [16, 17, 18, 19, 20, 21, 22, 23, 24, 25, 26, 27, 28, 29, 30, 31]"
  by (simp add: upt_rec)

lemma upt_round3: "[32..<48] = [32, 33, 34, 35, 36, 37, 38, 39, 40, 41, 42, 43, 44, 45, 46, 47]"
  by (simp add: upt_rec)

lemma upt_round4: "[48..<64] = [48, 49, 50, 51, 52, 53, 54, 55, 56, 57, 58, 59, 60, 61, 62, 63]"
  by (simp add: upt_rec)

lemma upt_0_64: "[0..<64] = [0..<16] @ [16..<32] @ [32..<48] @ [48..<64]"
  by (simp add: upt_add_eq_append [of 0 16 48, simplified]
      upt_add_eq_append [of 16 16 32, simplified] upt_add_eq_append [of 32 16 16, simplified])

lemmas upt_rounds = upt_0_64 upt_round1 upt_round2 upt_round3 upt_round4

lemma md5_K_nth:
  "md5_K ! 0 = 0xd76aa478"
  "md5_K ! Suc 0 = 0xe8c7b756"
  "md5_K ! 2 = 0x242070db"
  "md5_K ! 3 = 0xc1bdceee"
  "md5_K ! 4 = 0xf57c0faf"
  "md5_K ! 5 = 0x4787c62a"
  "md5_K ! 6 = 0xa8304613"
  "md5_K ! 7 = 0xfd469501"
  "md5_K ! 8 = 0x698098d8"
  "md5_K ! 9 = 0x8b44f7af"
  "md5_K ! 10 = 0xffff5bb1"
  "md5_K ! 11 = 0x895cd7be"
  "md5_K ! 12 = 0x6b901122"
  "md5_K ! 13 = 0xfd987193"
  "md5_K ! 14 = 0xa679438e"
  "md5_K ! 15 = 0x49b40821"
  "md5_K ! 16 = 0xf61e2562"
  "md5_K ! 17 = 0xc040b340"
  "md5_K ! 18 = 0x265e5a51"
  "md5_K ! 19 = 0xe9b6c7aa"
  "md5_K ! 20 = 0xd62f105d"
  "md5_K ! 21 = 0x02441453"
  "md5_K ! 22 = 0xd8a1e681"
  "md5_K ! 23 = 0xe7d3fbc8"
  "md5_K ! 24 = 0x21e1cde6"
  "md5_K ! 25 = 0xc33707d6"
  "md5_K ! 26 = 0xf4d50d87"
  "md5_K ! 27 = 0x455a14ed"
  "md5_K ! 28 = 0xa9e3e905"
  "md5_K ! 29 = 0xfcefa3f8"
  "md5_K ! 30 = 0x676f02d9"
  "md5_K ! 31 = 0x8d2a4c8a"
  "md5_K ! 32 = 0xfffa3942"
  "md5_K ! 33 = 0x8771f681"
  "md5_K ! 34 = 0x6d9d6122"
  "md5_K ! 35 = 0xfde5380c"
  "md5_K ! 36 = 0xa4beea44"
  "md5_K ! 37 = 0x4bdecfa9"
  "md5_K ! 38 = 0xf6bb4b60"
  "md5_K ! 39 = 0xbebfbc70"
  "md5_K ! 40 = 0x289b7ec6"
  "md5_K ! 41 = 0xeaa127fa"
  "md5_K ! 42 = 0xd4ef3085"
  "md5_K ! 43 = 0x04881d05"
  "md5_K ! 44 = 0xd9d4d039"
  "md5_K ! 45 = 0xe6db99e5"
  "md5_K ! 46 = 0x1fa27cf8"
  "md5_K ! 47 = 0xc4ac5665"
  "md5_K ! 48 = 0xf4292244"
  "md5_K ! 49 = 0x432aff97"
  "md5_K ! 50 = 0xab9423a7"
  "md5_K ! 51 = 0xfc93a039"
  "md5_K ! 52 = 0x655b59c3"
  "md5_K ! 53 = 0x8f0ccc92"
  "md5_K ! 54 = 0xffeff47d"
  "md5_K ! 55 = 0x85845dd1"
  "md5_K ! 56 = 0x6fa87e4f"
  "md5_K ! 57 = 0xfe2ce6e0"
  "md5_K ! 58 = 0xa3014314"
  "md5_K ! 59 = 0x4e0811a1"
  "md5_K ! 60 = 0xf7537e82"
  "md5_K ! 61 = 0xbd3af235"
  "md5_K ! 62 = 0x2ad7d2bb"
  "md5_K ! 63 = 0xeb86d391"
  by (simp_all add: md5_K_def)

lemma md5_s_nth:
  "md5_s ! 0 = 7"
  "md5_s ! Suc 0 = 12"
  "md5_s ! 2 = 17"
  "md5_s ! 3 = 22"
  "md5_s ! 4 = 7"
  "md5_s ! 5 = 12"
  "md5_s ! 6 = 17"
  "md5_s ! 7 = 22"
  "md5_s ! 8 = 7"
  "md5_s ! 9 = 12"
  "md5_s ! 10 = 17"
  "md5_s ! 11 = 22"
  "md5_s ! 12 = 7"
  "md5_s ! 13 = 12"
  "md5_s ! 14 = 17"
  "md5_s ! 15 = 22"
  "md5_s ! 16 = 5"
  "md5_s ! 17 = 9"
  "md5_s ! 18 = 14"
  "md5_s ! 19 = 20"
  "md5_s ! 20 = 5"
  "md5_s ! 21 = 9"
  "md5_s ! 22 = 14"
  "md5_s ! 23 = 20"
  "md5_s ! 24 = 5"
  "md5_s ! 25 = 9"
  "md5_s ! 26 = 14"
  "md5_s ! 27 = 20"
  "md5_s ! 28 = 5"
  "md5_s ! 29 = 9"
  "md5_s ! 30 = 14"
  "md5_s ! 31 = 20"
  "md5_s ! 32 = 4"
  "md5_s ! 33 = 11"
  "md5_s ! 34 = 16"
  "md5_s ! 35 = 23"
  "md5_s ! 36 = 4"
  "md5_s ! 37 = 11"
  "md5_s ! 38 = 16"
  "md5_s ! 39 = 23"
  "md5_s ! 40 = 4"
  "md5_s ! 41 = 11"
  "md5_s ! 42 = 16"
  "md5_s ! 43 = 23"
  "md5_s ! 44 = 4"
  "md5_s ! 45 = 11"
  "md5_s ! 46 = 16"
  "md5_s ! 47 = 23"
  "md5_s ! 48 = 6"
  "md5_s ! 49 = 10"
  "md5_s ! 50 = 15"
  "md5_s ! 51 = 21"
  "md5_s ! 52 = 6"
  "md5_s ! 53 = 10"
  "md5_s ! 54 = 15"
  "md5_s ! 55 = 21"
  "md5_s ! 56 = 6"
  "md5_s ! 57 = 10"
  "md5_s ! 58 = 15"
  "md5_s ! 59 = 21"
  "md5_s ! 60 = 6"
  "md5_s ! 61 = 10"
  "md5_s ! 62 = 15"
  "md5_s ! 63 = 21"
  by (simp_all add: md5_s_def)

lemma replicate_numeral:
  "replicate (numeral k) x = x # replicate (pred_numeral k) x"
  by (simp add: numeral_eq_Suc)

lemma le_bytes_numeral:
  "le_bytes (numeral k) x = x mod 256 # le_bytes (pred_numeral k) (x div 256)"
  unfolding numeral_eq_Suc [of k] by simp

lemma collision_a_words:
  "le_words (md5_pad (map of_char collision_a)) =
     [0x54584554, 0x4c4c4f43, 0x47665942, 0x45554a69,
      0x34514854, 0x4b634168, 0x35644d53, 0x6770597a,
      0x59316671, 0x6b684452, 0x6b48786d, 0x70575068,
      0x6f6b7274, 0x38327a79, 0x39496e77, 0x48613056,
      0x61754165, 0x6b616e4b, 0x00000080, 0x00000000,
      0x00000000, 0x00000000, 0x00000000, 0x00000000,
      0x00000000, 0x00000000, 0x00000000, 0x00000000,
      0x00000000, 0x00000000, 0x00000240, 0x00000000]"
  by (simp add: collision_a_def md5_pad_def le_bytes_numeral replicate_numeral)

lemma collision_a_block1:
  "md5_block (0x67452301, 0xefcdab89, 0x98badcfe, 0x10325476)
     [0x54584554, 0x4c4c4f43, 0x47665942, 0x45554a69,
      0x34514854, 0x4b634168, 0x35644d53, 0x6770597a,
      0x59316671, 0x6b684452, 0x6b48786d, 0x70575068,
      0x6f6b7274, 0x38327a79, 0x39496e77, 0x48613056] =
   (0xe22ebfe4, 0x9e2ac02a, 0x9b6b3769, 0xcd599281)"
  by (simp add: md5_block_def upt_rounds md5_step_def md5_K_nth md5_s_nth leftrotate_def)

lemma collision_a_block2:
  "md5_block (0xe22ebfe4, 0x9e2ac02a, 0x9b6b3769, 0xcd599281)
     [0x61754165, 0x6b616e4b, 0x00000080, 0x00000000,
      0x00000000, 0x00000000, 0x00000000, 0x00000000,
      0x00000000, 0x00000000, 0x00000000, 0x00000000,
      0x00000000, 0x00000000, 0x00000240, 0x00000000] =
   (0x8649adfa, 0xfc98946e, 0x28f51917, 0x69027a9e)"
  by (simp add: md5_block_def upt_rounds md5_step_def md5_K_nth md5_s_nth leftrotate_def)

lemma collision_a_digest: "md5_hexdigest collision_a = ''faad49866e9498fc1719f5289e7a0269''"
  by (simp add: md5_hexdigest_def md5_digest_def collision_a_words collision_a_block1
      collision_a_block2 le_bytes_numeral hex_byte_def)

lemma collision_b_words:
  "le_words (md5_pad (map of_char collision_b)) =
     [0x54584554, 0x4c4c4f43, 0x47665942, 0x45554a69,
      0x34514854, 0x4b634568, 0x35644d53, 0x6770597a,
      0x59316671, 0x6b684452, 0x6b48786d, 0x70575068,
      0x6f6b7274, 0x38327a79, 0x39496e77, 0x48613056,
      0x61754165, 0x6b616e4b, 0x00000080, 0x00000000,
      0x00000000, 0x00000000, 0x00000000, 0x00000000,
      0x00000000, 0x00000000, 0x00000000, 0x00000000,
      0x00000000, 0x00000000, 0x00000240, 0x00000000]"
  by (simp add: collision_b_def md5_pad_def le_bytes_numeral replicate_numeral)

lemma collision_b_block1:
  "md5_block (0x67452301, 0xefcdab89, 0x98badcfe, 0x10325476)
     [0x54584554, 0x4c4c4f43, 0x47665942, 0x45554a69,
      0x34514854, 0x4b634568, 0x35644d53, 0x6770597a,
      0x59316671, 0x6b684452, 0x6b48786d, 0x70575068,
      0x6f6b7274, 0x38327a79, 0x39496e77, 0x48613056] =
   (0x622ebfe4, 0x1e2ac02a, 0x1b6b3769, 0x4d599281)"
  by (simp add: md5_block_def upt_rounds md5_step_def md5_K_nth md5_s_nth leftrotate_def)

lemma collision_b_block2:
  "md5_block (0x622ebfe4, 0x1e2ac02a, 0x1b6b3769, 0x4d599281)
     [0x61754165, 0x6b616e4b, 0x00000080, 0x00000000,
      0x00000000, 0x00000000, 0x00000000, 0x00000000,
      0x00000000, 0x00000000, 0x00000000, 0x00000000,
      0x00000000, 0x00000000, 0x00000240, 0x00000000] =
   (0x8649adfa, 0xfc98946e, 0x28f51917, 0x69027a9e)"
  by (simp add: md5_block_def upt_rounds md5_step_def md5_K_nth md5_s_nth leftrotate_def)

lemma collision_b_digest: "md5_hexdigest collision_b = ''faad49866e9498fc1719f5289e7a0269''"
  by (simp add: md5_hexdigest_def md5_digest_def collision_b_words collision_b_block1
      collision_b_block2 le_bytes_numeral hex_byte_def)

lemma md5_collision: "collision_a \<noteq> collision_b \<and> hash_json collision_a = hash_json collision_b"
  by (simp add: hash_json_def collision_a_digest collision_b_digest)
    (simp add: collision_a_def collision_b_def)
(*MD5-END*)

subsection \<open>The stored digest\<close>

lemma map_of_dict_set: "map_of (dict_set d k v) = (map_of d)(k \<mapsto> v)"
  by (induction d k v rule: dict_set.induct) auto

lemma map_of_dict_update: "map_of (dict_update d u) = map_of d ++ map_of (rev u)"
proof (induction d u rule: dict_update.induct)
  case (1 d)
  then show ?case by simp
next
  case (2 d k v kvs)
  show ?case
    by (simp add: 2 map_of_dict_set map_add_def fun_eq_iff split: option.splits)
qed

lemma find_map_row:
  "find (\<lambda>r. row_id r = a) (map (\<lambda>r. if row_id r = a then Row a (g r) else r) rs) =
     map_option (\<lambda>r. Row a (g r)) (find (\<lambda>r. row_id r = a) rs)"
  by (induction rs) auto

lemma find_row_Some:
  "a \<in> row_id ` set rs \<Longrightarrow> \<exists>r. find (\<lambda>r. row_id r = a) rs = Some r \<and> row_id r = a"
  by (induction rs) auto


lemma find_map_other:
  "find (\<lambda>r. row_id r = b) (map (\<lambda>r. if row_id r = a then Row a (g r) else r) rs) =
     map_option (\<lambda>r. if row_id r = a then Row a (g r) else r) (find (\<lambda>r. row_id r = b) rs)"
  by (induction rs) auto

lemma applicant_field_update:
  assumes "applicants s' =
      map (\<lambda>r. if row_id r = a then Row a (dict_update (row_fields r) u) else r) (applicants s)"
  shows "applicant_field fld b s' =
     (if b = a \<and> b \<in> row_id ` set (applicants s) then
        (case map_of (rev u) fld of Some v \<Rightarrow> Some v | None \<Rightarrow> applicant_field fld b s)
      else applicant_field fld b s)"
proof (cases "find (\<lambda>r. row_id r = b) (applicants s)")
  case None
  then have "b \<notin> row_id ` set (applicants s)"
    by (auto simp: find_None_iff)
  with None show ?thesis
    by (simp add: applicant_field_def assms find_map_other)
next
  case (Some r)
  then have r: "row_id r = b" "r \<in> set (applicants s)"
    by (auto simp: find_Some_iff in_set_conv_nth)
  then have "b \<in> row_id ` set (applicants s)"
    by auto
  with Some r(1) show ?thesis
    by (auto simp: applicant_field_def assms find_map_other map_of_dict_update map_add_def
        split: option.splits)
qed

text \<open>The field map that \<^verbatim>\<open>_update_applicant_record\<close> writes.\<close>

lemma update_applicant_record_reliable:
  assumes "reliable s" and "a \<in> row_id ` set (applicants s)"
  shows "\<exists>u s'. update_applicant_record a ev S s = (Inr (), s') \<and> reliable s' \<and>
     map_of (rev u) ''LLM Summary'' = Some (JStr (summary ev)) \<and>
     map_of (rev u) ''Last JSON Hash'' = Some (JStr (hash_json S)) \<and>
     map_of (rev u) ''Compressed JSON'' = None \<and>
     applicants s' =
       map (\<lambda>r. if row_id r = a then Row a (dict_update (row_fields r) u) else r) (applicants s)"
proof -
  define s1 where "s1 = s\<lparr>clock := tl (clock s)\<rparr>"
  define t where "t = (case clock s of [] \<Rightarrow> [] | t # _ \<Rightarrow> t)"
  define u where "u = [(''LLM Summary'', JStr (summary ev)),
               (''LLM Score'', JNum (of_int (score ev))),
               (''LLM Follow-Ups'',
                  JStr (join [CHR 0x0A] (map (\<lambda>q. bullet @ '' '' @ q) (follow_ups ev)))),
               (''LLM Issues'',
                  JStr (if issues ev \<noteq> [] then join '', '' (issues ev) else ''None'')),
               (''LLM Evaluation Date'', JStr t),
               (''Last JSON Hash'', JStr (hash_json S))]"
  have n: "now_isoformat s = (Inr t, s1)"
    by (simp add: now_isoformat_eq t_def s1_def)
  have r1: "reliable s1"
    using assms(1) by (simp add: s1_def)
  have a1: "a \<in> row_id ` set (rows_of Applicants s1)"
    using assms(2) by (simp add: s1_def)
  define s2 where "s2 = set_rows Applicants
            (map (\<lambda>r. if row_id r = a then Row a (dict_update (row_fields r) u) else r)
               (rows_of Applicants s1)) (s1\<lparr>transport := tl (transport s1)\<rparr>)"
  have up: "update Applicants a u s1 = (Inr (), s2)"
    unfolding s2_def by (rule update_reliable [OF r1 a1])
  have "update_applicant_record a ev S s = (Inr (), s2\<lparr>log := log s2 @
      [(INFO, ''Updated applicant {applicant_id} with LLM evaluation results'', [Str a])]\<rparr>)"
    using n up [unfolded u_def]
    by (simp add: update_applicant_record_def catch_io_def bind_io_def logger_def Let_def
        split del: if_split)
  moreover have "reliable s2"
    using reliable_tl [OF r1] by (simp add: s2_def)
  moreover have "applicants s2 =
      map (\<lambda>r. if row_id r = a then Row a (dict_update (row_fields r) u) else r) (applicants s)"
    by (simp add: s2_def s1_def)
  moreover have "map_of (rev u) ''LLM Summary'' = Some (JStr (summary ev))"
    "map_of (rev u) ''Last JSON Hash'' = Some (JStr (hash_json S))"
    "map_of (rev u) ''Compressed JSON'' = None"
    by (simp_all add: u_def)
  ultimately show ?thesis
    by auto
qed

lemma needs_evaluation_reliable:
  assumes "reliable s" and "find (\<lambda>r. row_id r = a) (applicants s) = Some r"
  shows "fst (needs_evaluation a S s) =
     Inr (\<not> truthy (dict_get (row_fields r) ''LLM Summary'' JNull) \<or>
          \<not> py_eq (dict_get (row_fields r) ''Last JSON Hash'' (JStr [])) (JStr (hash_json S)))"
proof -
  have "get Applicants a s = (Inr r, s\<lparr>transport := tl (transport s)\<rparr>)"
    by (rule get_reliable [OF assms(1)]) (simp add: assms(2))
  then show ?thesis
    by (simp add: needs_evaluation_def catch_io_def bind_io_def return_io_def Let_def)
qed

lemma needs_evaluation_after_update:
  assumes "reliable s" and "a \<in> row_id ` set (applicants s)" and "summary ev \<noteq> []"
  shows "fst (update_applicant_record a ev S s) = Inr () \<and>
     fst (needs_evaluation a S' (snd (update_applicant_record a ev S s))) =
       Inr (hash_json S' \<noteq> hash_json S)"
proof -
  from update_applicant_record_reliable [OF assms(1,2), of ev S]
  obtain u s' where u: "update_applicant_record a ev S s = (Inr (), s')" and r: "reliable s'"
    and m: "map_of (rev u) ''LLM Summary'' = Some (JStr (summary ev))"
      "map_of (rev u) ''Last JSON Hash'' = Some (JStr (hash_json S))"
    and ap: "applicants s' =
       map (\<lambda>r. if row_id r = a then Row a (dict_update (row_fields r) u) else r) (applicants s)"
    by blast
  from find_row_Some [OF assms(2)] obtain r0
    where r0: "find (\<lambda>r. row_id r = a) (applicants s) = Some r0"
    by blast
  define r1 where "r1 = Row a (dict_update (row_fields r0) u)"
  have f: "find (\<lambda>r. row_id r = a) (applicants s') = Some r1"
    by (simp add: ap find_map_row r0 r1_def)
  have g1: "dict_get (row_fields r1) ''LLM Summary'' JNull = JStr (summary ev)"
    by (simp add: r1_def dict_get_def map_of_dict_update map_add_def m)
  have g2: "dict_get (row_fields r1) ''Last JSON Hash'' (JStr []) = JStr (hash_json S)"
    by (simp add: r1_def dict_get_def map_of_dict_update map_add_def m)
  from needs_evaluation_reliable [OF r f, of S'] assms(3)
  have "fst (needs_evaluation a S' s') = Inr (hash_json S' \<noteq> hash_json S)"
    by (auto simp: g1 g2)
  with u show ?thesis
    by simp
qed


text \<open>Whatever the transport does, the Compressor writes at most the document and the
  last-compressed timestamp of the applicant.\<close>

lemma update_effect:
  "\<exists>r s'. update Applicants rid flds s = (r, s') \<and>
     (applicants s' = applicants s \<or>
      applicants s' =
        map (\<lambda>r. if row_id r = rid then Row rid (dict_update (row_fields r) flds) else r)
          (applicants s))"
  by (auto simp: update_def remote_call_def split: list.splits)

lemma compress_effect:
  "\<exists>doc t. applicants (snd (compress_applicant_data J a s)) = applicants s \<or>
     applicants (snd (compress_applicant_data J a s)) =
       map (\<lambda>r. if row_id r = a then Row a (dict_update (row_fields r)
              [(''Compressed JSON'', JStr doc), (''Last Compressed'', JStr t)]) else r)
         (applicants s)"
proof -
  define s0 where
    "s0 = s\<lparr>log := log s @ [(INFO, ''Starting compression for applicant {applicant_id}'', [Str a])]\<rparr>"
  obtain p s1 where f1: "fetch_personal_data a s0 = (Inr p, s1)" and t1: "same_tables s0 s1"
    using fetch_personal_data_total by blast
  obtain e s2 where f2: "fetch_experience_data a s1 = (Inr e, s2)" and t2: "same_tables s1 s2"
    using fetch_experience_data_total by blast
  obtain q s3 where f3: "fetch_salary_data a s2 = (Inr q, s3)" and t3: "same_tables s2 s3"
    using fetch_salary_data_total by blast
  have a3: "applicants s3 = applicants s"
    using t1 t2 t3 by (simp add: same_tables_def s0_def)
  show ?thesis
  proof (cases "all_present p q")
    case False
    then have "applicants (snd (compress_applicant_data J a s)) = applicants s"
      using f1 f2 f3 a3
      by (simp add: compress_applicant_data_def catch_io_def bind_io_def logger_def return_io_def
          s0_def [symmetric])
    then show ?thesis
      by simp
  next
    case True
    define s4 where "s4 = s3\<lparr>clock := tl (clock s3)\<rparr>"
    define s5 where "s5 = s4\<lparr>clock := tl (clock s4)\<rparr>"
    define t1 where "t1 = (case clock s3 of [] \<Rightarrow> [] | t # _ \<Rightarrow> t)"
    define t2 where "t2 = (case clock s4 of [] \<Rightarrow> [] | t # _ \<Rightarrow> t)"
    define doc where "doc = compressed_json (case p of None \<Rightarrow> [] | Some p \<Rightarrow> p) e
        (case q of None \<Rightarrow> [] | Some sal \<Rightarrow> sal) t1"
    define flds where
      "flds = [(''Compressed JSON'', JStr (dumps J doc)), (''Last Compressed'', JStr t2)]"
    have n1: "now_isoformat s3 = (Inr t1, s4)"
      by (simp add: now_isoformat_eq t1_def s4_def)
    have n2: "now_isoformat s4 = (Inr t2, s5)"
      by (simp add: now_isoformat_eq t2_def s5_def)
    obtain r s6 where u: "update Applicants a flds s5 = (r, s6)"
      and a6: "applicants s6 = applicants s5 \<or>
        applicants s6 =
          map (\<lambda>r. if row_id r = a then Row a (dict_update (row_fields r) flds) else r)
            (applicants s5)"
      using update_effect by blast
    have a5: "applicants s5 = applicants s"
      by (simp add: s5_def s4_def a3)
    have "applicants (snd (compress_applicant_data J a s)) = applicants s6"
      using f1 f2 f3 n1 n2 u True
      by (cases r)
        (simp_all add: compress_applicant_data_def catch_io_def bind_io_def logger_def
          return_io_def raise_io_def s0_def [symmetric] Let_def doc_def [symmetric]
          flds_def [symmetric])
    with a6 a5 show ?thesis
      unfolding flds_def by auto
  qed
qed

lemma compress_keeps_hash:
  "applicant_field ''Last JSON Hash'' b (snd (compress_applicant_data J a s)) =
     applicant_field ''Last JSON Hash'' b s"
proof -
  from compress_effect [of J a s] obtain doc t where
    "applicants (snd (compress_applicant_data J a s)) = applicants s \<or>
     applicants (snd (compress_applicant_data J a s)) =
       map (\<lambda>r. if row_id r = a then Row a (dict_update (row_fields r)
              [(''Compressed JSON'', JStr doc), (''Last Compressed'', JStr t)]) else r)
         (applicants s)"
    by blast
  then show ?thesis
  proof
    assume "applicants (snd (compress_applicant_data J a s)) = applicants s"
    then show ?thesis
      by (simp add: applicant_field_def)
  next
    assume "applicants (snd (compress_applicant_data J a s)) =
       map (\<lambda>r. if row_id r = a then Row a (dict_update (row_fields r)
              [(''Compressed JSON'', JStr doc), (''Last Compressed'', JStr t)]) else r)
         (applicants s)"
    from applicant_field_update [OF this, of "''Last JSON Hash''" b] show ?thesis
      by simp
  qed
qed

lemma digest_current_after_update:
  assumes "reliable s" and "a \<in> row_id ` set (applicants s)"
    and "stored_document a s = Some (JStr S)"
  shows "fst (update_applicant_record a ev S s) = Inr () \<and>
     stored_document a (snd (update_applicant_record a ev S s)) = Some (JStr S) \<and>
     digest_current a (snd (update_applicant_record a ev S s))"
proof -
  from update_applicant_record_reliable [OF assms(1,2), of ev S]
  obtain u s' where u: "update_applicant_record a ev S s = (Inr (), s')"
    and m: "map_of (rev u) ''Last JSON Hash'' = Some (JStr (hash_json S))"
      "map_of (rev u) ''Compressed JSON'' = None"
    and ap: "applicants s' =
       map (\<lambda>r. if row_id r = a then Row a (dict_update (row_fields r) u) else r) (applicants s)"
    by blast
  have d: "stored_document a s' = Some (JStr S)"
    using applicant_field_update [OF ap, of "''Compressed JSON''" a] assms(2,3)
    by (simp add: stored_document_def m)
  have h: "stored_hash a s' = Some (JStr (hash_json S))"
    using applicant_field_update [OF ap, of "''Last JSON Hash''" a] assms(2)
    by (simp add: stored_hash_def m)
  show ?thesis
    by (simp add: u d h digest_current_def)
qed

subsection \<open>What the batch drivers write to the log\<close>

lemma logged_append [simp]: "logged fmt (l1 @ l2) = logged fmt l1 @ logged fmt l2"
  by (simp add: logged_def)

lemma logged_Nil [simp]: "logged fmt [] = []"
  by (simp add: logged_def)

lemma logged_Cons:
  "logged fmt (e # l) = (if fst (snd e) = fmt then [snd (snd e)] else []) @ logged fmt l"
  by (simp add: logged_def)

lemma logged_none: "list_all (\<lambda>e. fst (snd e) \<noteq> fmt) l \<Longrightarrow> logged fmt l = []"
  by (induction l) (simp_all add: logged_Cons)

lemma log_only_return: "log_only P (return_io x)"
  by (simp add: log_only_def return_io_def)

lemma log_only_raise: "log_only P (raise_io e)"
  by (simp add: log_only_def raise_io_def)

lemma log_only_lift: "log_only P (lift_io r)"
  by (simp add: log_only_def lift_io_def)

lemma log_only_logger: "P (lvl, fmt, args) \<Longrightarrow> log_only P (logger lvl fmt args)"
  by (auto simp: log_only_def logger_def)

lemma log_only_now: "log_only P now_isoformat"
  by (auto simp: log_only_def now_isoformat_def split: list.splits)

lemma log_only_bind:
  assumes "log_only P m" and "\<And>x. log_only P (f x)"
  shows "log_only P (bind_io m f)"
  unfolding log_only_def
proof (intro allI impI)
  fix s r s'
  assume b: "bind_io m f s = (r, s')"
  obtain r1 s1 where m: "m s = (r1, s1)"
    by (cases "m s")
  with assms(1) obtain l1 where l1: "log s1 = log s @ l1" "list_all P l1"
    unfolding log_only_def by blast
  show "\<exists>l. log s' = log s @ l \<and> list_all P l"
  proof (cases r1)
    case (Inl e)
    with b m have "s' = s1"
      by (simp add: bind_io_def)
    with l1 show ?thesis
      by blast
  next
    case (Inr x)
    with b m have "f x s1 = (r, s')"
      by (simp add: bind_io_def)
    with assms(2) [of x] obtain l2 where "log s' = log s1 @ l2" "list_all P l2"
      unfolding log_only_def by blast
    with l1 show ?thesis
      by (intro exI [of _ "l1 @ l2"]) simp
  qed
qed

lemma log_only_catch:
  assumes "log_only P m" and "\<And>e. log_only P (h e)"
  shows "log_only P (catch_io m h)"
  unfolding log_only_def
proof (intro allI impI)
  fix s r s'
  assume b: "catch_io m h s = (r, s')"
  obtain r1 s1 where m: "m s = (r1, s1)"
    by (cases "m s")
  with assms(1) obtain l1 where l1: "log s1 = log s @ l1" "list_all P l1"
    unfolding log_only_def by blast
  show "\<exists>l. log s' = log s @ l \<and> list_all P l"
  proof (cases r1)
    case (Inr x)
    with b m have "s' = s1"
      by (simp add: catch_io_def)
    with l1 show ?thesis
      by blast
  next
    case (Inl e)
    with b m have "h e s1 = (r, s')"
      by (simp add: catch_io_def)
    with assms(2) [of e] obtain l2 where "log s' = log s1 @ l2" "list_all P l2"
      unfolding log_only_def by blast
    with l1 show ?thesis
      by (intro exI [of _ "l1 @ l2"]) simp
  qed
qed

lemma log_only_remote:
  assumes "\<And>s r s'. m s = (r, s') \<Longrightarrow> log s' = log s"
  shows "log_only P (remote_call m)"
  unfolding log_only_def
proof (intro allI impI)
  fix s r s'
  assume "remote_call m s = (r, s')"
  then have "log s' = log s"
    using assms [of "s\<lparr>transport := tl (transport s)\<rparr>" r s'] assms [of s r s']
    by (auto simp: remote_call_def split: list.splits if_splits)
  then show "\<exists>l. log s' = log s @ l \<and> list_all P l"
    by simp
qed

lemma log_set_rows [simp]: "log (set_rows t rs s) = log s"
  by (cases t) simp_all

lemma log_only_store:
  "log_only P (search t fld v)" "log_only P (get_all t f)" "log_only P (get t rid)"
  "log_only P (update t rid flds)" "log_only P (delete t rid)" "log_only P (create t flds)"
  unfolding search_def get_all_def get_def update_def delete_def create_def
  by (rule log_only_raise | rule log_only_remote; auto simp: Let_def split: option.splits if_splits)+

lemmas log_only_intros =
  log_only_return log_only_raise log_only_lift log_only_logger log_only_now log_only_store
  log_only_bind log_only_catch

lemma log_only_fetch:
  assumes "P (ERROR, ''Failed to fetch personal data: {str(e)}'', [Exn ConnectionError])"
    "P (ERROR, ''Failed to fetch experience data: {str(e)}'', [Exn ConnectionError])"
    "P (ERROR, ''Failed to fetch salary data: {str(e)}'', [Exn ConnectionError])"
    "\<And>e. P (ERROR, ''Failed to fetch personal data: {str(e)}'', [Exn e])"
    "\<And>e. P (ERROR, ''Failed to fetch experience data: {str(e)}'', [Exn e])"
    "\<And>e. P (ERROR, ''Failed to fetch salary data: {str(e)}'', [Exn e])"
  shows "log_only P (fetch_personal_data a)" "log_only P (fetch_experience_data a)"
    "log_only P (fetch_salary_data a)"
  unfolding fetch_personal_data_def fetch_experience_data_def fetch_salary_data_def
  by (auto intro!: log_only_intros assms split: list.splits)

lemma fetch_silent:
  "\<exists>r s' l. fetch_personal_data a s = (Inr r, s') \<and> log s' = log s @ l \<and>
     list_all compression_silent l"
  "\<exists>r s' l. fetch_experience_data a s = (Inr r, s') \<and> log s' = log s @ l \<and>
     list_all compression_silent l"
  "\<exists>r s' l. fetch_salary_data a s = (Inr r, s') \<and> log s' = log s @ l \<and>
     list_all compression_silent l"
proof -
  have P: "compression_silent (ERROR, ''Failed to fetch personal data: {str(e)}'', [Exn e])"
    "compression_silent (ERROR, ''Failed to fetch experience data: {str(e)}'', [Exn e])"
    "compression_silent (ERROR, ''Failed to fetch salary data: {str(e)}'', [Exn e])" for e
    by (simp_all add: compression_silent_def fmt_start_compression_def fmt_compressed_def
        fmt_compress_raised_def fmt_compress_reported_def)
  have L: "log_only compression_silent (fetch_personal_data a)"
    "log_only compression_silent (fetch_experience_data a)"
    "log_only compression_silent (fetch_salary_data a)"
    by (rule log_only_fetch; rule P)+
  obtain r1 s1 where 1: "fetch_personal_data a s = (Inr r1, s1)"
    using fetch_personal_data_total by blast
  with L(1) show "\<exists>r s' l. fetch_personal_data a s = (Inr r, s') \<and> log s' = log s @ l \<and>
     list_all compression_silent l"
    unfolding log_only_def by blast
  obtain r2 s2 where 2: "fetch_experience_data a s = (Inr r2, s2)"
    using fetch_experience_data_total by blast
  with L(2) show "\<exists>r s' l. fetch_experience_data a s = (Inr r, s') \<and> log s' = log s @ l \<and>
     list_all compression_silent l"
    unfolding log_only_def by blast
  obtain r3 s3 where 3: "fetch_salary_data a s = (Inr r3, s3)"
    using fetch_salary_data_total by blast
  with L(3) show "\<exists>r s' l. fetch_salary_data a s = (Inr r, s') \<and> log s' = log s @ l \<and>
     list_all compression_silent l"
    unfolding log_only_def by blast
qed

lemma silent_logged:
  assumes "list_all compression_silent l"
  shows "logged fmt_start_compression l = []" "logged fmt_compressed l = []"
    "logged fmt_compress_raised l = []" "logged fmt_compress_reported l = []"
  by (rule logged_none, rule list.pred_mono_strong [OF assms], simp add: compression_silent_def)+

lemma update_log:
  assumes "update t rid flds s = (r, s')"
  shows "log s' = log s"
proof -
  from log_only_store(4) [of "\<lambda>_. False" t rid flds] assms
  obtain l where "log s' = log s @ l" "list_all (\<lambda>_. False) l"
    unfolding log_only_def by blast
  then show ?thesis
    by (cases l) simp_all
qed

lemmas fmt_defs =
  fmt_start_compression_def fmt_compressed_def fmt_compress_raised_def
  fmt_compress_reported_def

lemma compress_log:
  "\<exists>r s' l. compress_applicant_data J a s = (r, s') \<and>
     log s' = log s @ l \<and>
     logged fmt_start_compression l = [[Str a]] \<and>
     logged fmt_compress_reported l = [] \<and>
     logged fmt_compress_raised l = (case r of Inl e \<Rightarrow> [[Str a, Exn e]] | Inr x \<Rightarrow> []) \<and>
     logged fmt_compressed l =
       (case r of Inr (Some d) \<Rightarrow> [[Str a]] | _ \<Rightarrow> [])"
proof -
  define s0 where
    "s0 = s\<lparr>log := log s @ [(INFO, ''Starting compression for applicant {applicant_id}'', [Str a])]\<rparr>"
  obtain p s1 l1 where f1: "fetch_personal_data a s0 = (Inr p, s1)"
    and g1: "log s1 = log s0 @ l1" "list_all compression_silent l1"
    using fetch_silent(1) by blast
  obtain e s2 l2 where f2: "fetch_experience_data a s1 = (Inr e, s2)"
    and g2: "log s2 = log s1 @ l2" "list_all compression_silent l2"
    using fetch_silent(2) by blast
  obtain q s3 l3 where f3: "fetch_salary_data a s2 = (Inr q, s3)"
    and g3: "log s3 = log s2 @ l3" "list_all compression_silent l3"
    using fetch_silent(3) by blast
  define L where
    "L = (INFO, ''Starting compression for applicant {applicant_id}'', [Str a]) # l1 @ l2 @ l3"
  have l3: "log s3 = log s @ L"
    by (simp add: g1 g2 g3 s0_def L_def)
  note sl = silent_logged [OF g1(2), unfolded fmt_defs] silent_logged [OF g2(2), unfolded fmt_defs]
    silent_logged [OF g3(2), unfolded fmt_defs]
  have LL: "logged fmt_start_compression L = [[Str a]]" "logged fmt_compress_reported L = []"
    "logged fmt_compress_raised L = []" "logged fmt_compressed L = []"
    by (simp_all add: L_def logged_Cons sl fmt_defs)
  show ?thesis
  proof (cases "all_present p q")
    case False
    define S where "S = s3\<lparr>log := log s3 @
         [(ERROR, ''Missing required data for applicant {applicant_id}'', [Str a])]\<rparr>"
    have res: "compress_applicant_data J a s = (Inr None, S)"
      using f1 f2 f3 False
      by (simp add: compress_applicant_data_def catch_io_def bind_io_def logger_def return_io_def
          s0_def [symmetric] S_def)
    have lg: "log S = log s @ (L @
        [(ERROR, ''Missing required data for applicant {applicant_id}'', [Str a])])"
      by (simp add: S_def l3)
    have "logged fmt_start_compression
        [(ERROR, ''Missing required data for applicant {applicant_id}'', [Str a])] = []"
      "logged fmt_compress_reported
        [(ERROR, ''Missing required data for applicant {applicant_id}'', [Str a])] = []"
      "logged fmt_compress_raised
        [(ERROR, ''Missing required data for applicant {applicant_id}'', [Str a])] = []"
      "logged fmt_compressed
        [(ERROR, ''Missing required data for applicant {applicant_id}'', [Str a])] = []"
      by (simp_all add: logged_Cons fmt_defs)
    with res lg LL show ?thesis
      by (intro exI [of _ "Inr None"] exI [of _ S] exI [of _ "L @
        [(ERROR, ''Missing required data for applicant {applicant_id}'', [Str a])]"]) simp
  next
    case True
    define s4 where "s4 = s3\<lparr>clock := tl (clock s3)\<rparr>"
    define s5 where "s5 = s4\<lparr>clock := tl (clock s4)\<rparr>"
    define t1 where "t1 = (case clock s3 of [] \<Rightarrow> [] | t # _ \<Rightarrow> t)"
    define t2 where "t2 = (case clock s4 of [] \<Rightarrow> [] | t # _ \<Rightarrow> t)"
    define doc where "doc = compressed_json (case p of None \<Rightarrow> [] | Some p \<Rightarrow> p) e
        (case q of None \<Rightarrow> [] | Some sal \<Rightarrow> sal) t1"
    define flds where
      "flds = [(''Compressed JSON'', JStr (dumps J doc)), (''Last Compressed'', JStr t2)]"
    have n1: "now_isoformat s3 = (Inr t1, s4)"
      by (simp add: now_isoformat_eq t1_def s4_def)
    have n2: "now_isoformat s4 = (Inr t2, s5)"
      by (simp add: now_isoformat_eq t2_def s5_def)
    obtain r s6 where u: "update Applicants a flds s5 = (r, s6)"
      by (cases "update Applicants a flds s5")
    have l6: "log s6 = log s @ L"
      using update_log [OF u] by (simp add: s5_def s4_def l3)
    show ?thesis
    proof (cases r)
      case (Inl x)
      define E where
        "E = (ERROR, ''Failed to compress data for applicant {applicant_id}: {str(e)}'',
            [Str a, Exn x])"
      define S where "S = s6\<lparr>log := log s6 @ [E]\<rparr>"
      have res: "compress_applicant_data J a s = (Inl x, S)"
        using f1 f2 f3 n1 n2 u True Inl
        by (simp add: compress_applicant_data_def catch_io_def bind_io_def logger_def
          return_io_def raise_io_def s0_def [symmetric] Let_def doc_def [symmetric]
          flds_def [symmetric] S_def E_def)
      have lg: "log S = log s @ (L @ [E])"
        by (simp add: S_def l6)
      have "logged fmt_start_compression [E] = []" "logged fmt_compress_reported [E] = []"
        "logged fmt_compress_raised [E] = [[Str a, Exn x]]" "logged fmt_compressed [E] = []"
        by (simp_all add: logged_Cons fmt_defs E_def)
      with res lg LL show ?thesis
        by (intro exI [of _ "Inl x"] exI [of _ S] exI [of _ "L @ [E]"]) simp
    next
      case (Inr x)
      define E where
        "E = (INFO, ''Successfully compressed data for applicant {applicant_id}'', [Str a])"
      define S where "S = s6\<lparr>log := log s6 @ [E]\<rparr>"
      have res: "compress_applicant_data J a s = (Inr (Some doc), S)"
        using f1 f2 f3 n1 n2 u True Inr
        by (simp add: compress_applicant_data_def catch_io_def bind_io_def logger_def
          return_io_def raise_io_def s0_def [symmetric] Let_def doc_def [symmetric]
          flds_def [symmetric] S_def E_def)
      have lg: "log S = log s @ (L @ [E])"
        by (simp add: S_def l6)
      have "logged fmt_start_compression [E] = []" "logged fmt_compress_reported [E] = []"
        "logged fmt_compress_raised [E] = []" "logged fmt_compressed [E] = [[Str a]]"
        by (simp_all add: logged_Cons fmt_defs E_def)
      with res lg LL show ?thesis
        by (intro exI [of _ "Inr (Some doc)"] exI [of _ S] exI [of _ "L @ [E]"]) simp
    qed
  qed
qed

lemma logged_single: "logged fmt (e # l) = logged fmt [e] @ logged fmt l"
  by (simp add: logged_Cons)

lemma compress_loop_log:
  "\<exists>s' l. compress_loop J rows s = (Inr (), s') \<and> log s' = log s @ l \<and>
     logged fmt_start_compression l = map (\<lambda>r. [Str (row_id r)]) rows \<and>
     logged fmt_compress_reported l = logged fmt_compress_raised l"
proof (induction rows arbitrary: s)
  case Nil
  show ?case
    by (simp add: return_io_def)
next
  case (Cons applicant rest)
  obtain r s1 l1 where c: "compress_applicant_data J (row_id applicant) s = (r, s1)"
    and l1: "log s1 = log s @ l1"
    and st: "logged fmt_start_compression l1 = [[Str (row_id applicant)]]"
    and rp: "logged fmt_compress_reported l1 = []"
    and ra: "logged fmt_compress_raised l1 =
        (case r of Inl e \<Rightarrow> [[Str (row_id applicant), Exn e]] | Inr x \<Rightarrow> [])"
    using compress_log [of J "row_id applicant" s] by blast
  show ?case
  proof (cases r)
    case (Inr x)
    from Cons.IH [of s1] obtain s' l where
      loop: "compress_loop J rest s1 = (Inr (), s')" and l: "log s' = log s1 @ l"
      and st': "logged fmt_start_compression l = map (\<lambda>r. [Str (row_id r)]) rest"
      and rp': "logged fmt_compress_reported l = logged fmt_compress_raised l"
      by blast
    have "compress_loop J (applicant # rest) s = (Inr (), s')"
      using c Inr loop by (simp add: bind_io_def catch_io_def return_io_def)
    moreover have "log s' = log s @ (l1 @ l)"
      by (simp add: l l1)
    moreover have "logged fmt_start_compression (l1 @ l) =
        map (\<lambda>r. [Str (row_id r)]) (applicant # rest)"
      by (simp add: st st')
    moreover have "logged fmt_compress_reported (l1 @ l) = logged fmt_compress_raised (l1 @ l)"
      using Inr by (simp add: rp ra rp')
    ultimately show ?thesis
      by blast
  next
    case (Inl e)
    define E where
      "E = (ERROR, ''Failed to compress applicant {applicant_id}: {str(e)}'',
          [Str (row_id applicant), Exn e])"
    define s2 where "s2 = s1\<lparr>log := log s1 @ [E]\<rparr>"
    from Cons.IH [of s2] obtain s' l where
      loop: "compress_loop J rest s2 = (Inr (), s')" and l: "log s' = log s2 @ l"
      and st': "logged fmt_start_compression l = map (\<lambda>r. [Str (row_id r)]) rest"
      and rp': "logged fmt_compress_reported l = logged fmt_compress_raised l"
      by blast
    have E: "logged fmt_start_compression [E] = []"
      "logged fmt_compress_reported [E] = [[Str (row_id applicant), Exn e]]"
      "logged fmt_compress_raised [E] = []"
      by (simp_all add: logged_Cons fmt_defs E_def)
    have "compress_loop J (applicant # rest) s = (Inr (), s')"
      using c Inl loop
      by (simp add: bind_io_def catch_io_def return_io_def logger_def s2_def E_def)
    moreover have "log s' = log s @ (l1 @ [E] @ l)"
      by (simp add: l l1 s2_def)
    moreover have "logged fmt_start_compression (l1 @ [E] @ l) =
        map (\<lambda>r. [Str (row_id r)]) (applicant # rest)"
      by (simp add: st st' E logged_single [of _ E l])
    moreover have "logged fmt_compress_reported (l1 @ [E] @ l) =
        logged fmt_compress_raised (l1 @ [E] @ l)"
      using Inl by (simp add: rp ra rp' E logged_single [of _ E l])
    ultimately show ?thesis
      by blast
  qed
qed

lemma get_all_ok:
  assumes "first_call_succeeds s"
  shows "get_all t f s = (Inr (filter f (rows_of t s)), s\<lparr>transport := tl (transport s)\<rparr>)"
proof (cases "transport s")
  case Nil
  then have e: "s\<lparr>transport := []\<rparr> = s"
    by (cases s) auto
  show ?thesis
    by (simp add: get_all_def remote_call_def Nil e)
next
  case (Cons b bs)
  with assms show ?thesis
    by (cases t) (simp_all add: get_all_def remote_call_def first_call_succeeds_def)
qed

lemma compress_all_pending_log:
  assumes "first_call_succeeds s"
  shows "\<exists>s' l. compress_all_pending J s = (Inr (), s') \<and> log s' = log s @ l \<and>
     logged fmt_start_compression l =
       map (\<lambda>r. [Str (row_id r)]) (filter pending_compression (applicants s)) \<and>
     logged fmt_compress_reported l = logged fmt_compress_raised l"
proof -
  define rows where "rows = filter pending_compression (applicants s)"
  define E where
    "E = (INFO, ''Found {len(pending_applicants)} applicants pending compression'',
        [Num (length rows)])"
  define s1 where "s1 = s\<lparr>transport := tl (transport s), log := log s @ [E]\<rparr>"
  obtain s' l where
    loop: "compress_loop J rows s1 = (Inr (), s')" and l: "log s' = log s1 @ l"
    and st: "logged fmt_start_compression l = map (\<lambda>r. [Str (row_id r)]) rows"
    and rp: "logged fmt_compress_reported l = logged fmt_compress_raised l"
    using compress_loop_log [of J rows s1] by blast
  have E: "logged fmt_start_compression [E] = []" "logged fmt_compress_reported [E] = []"
    "logged fmt_compress_raised [E] = []"
    by (simp_all add: logged_Cons fmt_defs E_def)
  have "compress_all_pending J s = (Inr (), s')"
    using loop
    by (simp add: compress_all_pending_def catch_io_def bind_io_def get_all_ok [OF assms]
        logger_def rows_def [symmetric] E_def [symmetric] s1_def [symmetric])
  moreover have "log s' = log s @ ([E] @ l)"
    by (simp add: l s1_def)
  moreover have "logged fmt_start_compression ([E] @ l) = map (\<lambda>r. [Str (row_id r)]) rows"
    "logged fmt_compress_reported ([E] @ l) = logged fmt_compress_raised ([E] @ l)"
    by (simp_all add: E st rp logged_single [of _ E l])
  ultimately show ?thesis
    unfolding rows_def by blast
qed

lemma log_only_if:
  "log_only P a \<Longrightarrow> log_only P b \<Longrightarrow> log_only P (if c then a else b)"
  by simp

lemma log_only_delete_records: "log_only P (delete_records rs)"
  by (induction rs) (auto intro!: log_only_intros)

lemma log_only_create_experience: "log_only P (create_experience a es)"
  by (induction es) (auto intro!: log_only_intros)

lemmas dfmt_defs = fmt_start_decompression_def fmt_decompress_reported_def

lemma log_only_update_personal_details:
  "log_only decompression_silent (update_personal_details a p)"
  unfolding update_personal_details_def
  by (auto intro!: log_only_intros simp: decompression_silent_def dfmt_defs split: list.splits)

lemma log_only_update_salary_preferences:
  "log_only decompression_silent (update_salary_preferences a p)"
  unfolding update_salary_preferences_def
  by (auto intro!: log_only_intros simp: decompression_silent_def dfmt_defs split: list.splits)

lemma log_only_update_work_experience:
  "log_only decompression_silent (update_work_experience a p)"
  unfolding update_work_experience_def
  by (auto intro!: log_only_intros log_only_delete_records log_only_create_experience
      simp: decompression_silent_def dfmt_defs)

lemma catch_bind_logger:
  assumes f: "log_only P (f ())" and h: "\<And>e. log_only P (h e)"
    and t: "\<And>e s. \<exists>x s'. h e s = (Inr x, s')"
  shows "\<exists>x s' l. catch_io (bind_io (logger lvl fmt args) f) h s = (Inr x, s') \<and>
     log s' = log s @ (lvl, fmt, args) # l \<and> list_all P l"
proof -
  define s0 where "s0 = s\<lparr>log := log s @ [(lvl, fmt, args)]\<rparr>"
  have eq: "catch_io (bind_io (logger lvl fmt args) f) h s = catch_io (f ()) h s0"
    by (simp add: catch_io_def bind_io_def logger_def s0_def)
  obtain r s' where r: "catch_io (f ()) h s0 = (r, s')"
    by (cases "catch_io (f ()) h s0")
  have "log_only P (catch_io (f ()) h)"
    by (rule log_only_catch [OF f h])
  with r obtain l where l: "log s' = log s0 @ l" "list_all P l"
    unfolding log_only_def by blast
  have "\<exists>x. r = Inr x"
  proof (cases "f () s0")
    case (Pair r1 s1)
    show ?thesis
    proof (cases r1)
      case (Inl e)
      with Pair r t [of e s1] show ?thesis
        by (auto simp: catch_io_def)
    next
      case (Inr x)
      with Pair r show ?thesis
        by (auto simp: catch_io_def)
    qed
  qed
  then obtain x where "r = Inr x" ..
  with r l eq show ?thesis
    by (simp add: s0_def)
qed

lemma decompress_log:
  "\<exists>b s' l. decompress_applicant_data J a s = (Inr b, s') \<and> log s' = log s @ l \<and>
     logged fmt_start_decompression l = [[Str a]] \<and>
     logged fmt_decompress_reported l = []"
proof -
  have "\<exists>b s' l. decompress_applicant_data J a s = (Inr b, s') \<and>
     log s' = log s @ (INFO, ''Starting decompression for applicant {applicant_id}'', [Str a]) # l \<and>
     list_all decompression_silent l"
    unfolding decompress_applicant_data_def
    by (rule catch_bind_logger)
      (auto intro!: log_only_intros log_only_update_personal_details
        log_only_update_work_experience log_only_update_salary_preferences
        simp: decompression_silent_def dfmt_defs bind_io_def logger_def return_io_def)
  then obtain b s' l where d: "decompress_applicant_data J a s = (Inr b, s')"
    and l: "log s' =
      log s @ (INFO, ''Starting decompression for applicant {applicant_id}'', [Str a]) # l"
    and q: "list_all decompression_silent l"
    by blast
  have "logged fmt_start_decompression l = []" "logged fmt_decompress_reported l = []"
    by (rule logged_none, rule list.pred_mono_strong [OF q],
        simp add: decompression_silent_def)+
  then have "logged fmt_start_decompression
      ((INFO, ''Starting decompression for applicant {applicant_id}'', [Str a]) # l) = [[Str a]]"
    "logged fmt_decompress_reported
      ((INFO, ''Starting decompression for applicant {applicant_id}'', [Str a]) # l) = []"
    by (simp_all add: logged_Cons dfmt_defs)
  with d l show ?thesis
    by blast
qed

lemma decompress_loop_log:
  "\<exists>s' l. decompress_loop J rows s = (Inr (), s') \<and> log s' = log s @ l \<and>
     logged fmt_start_decompression l = map (\<lambda>r. [Str (row_id r)]) rows \<and>
     logged fmt_decompress_reported l = []"
proof (induction rows arbitrary: s)
  case Nil
  show ?case
    by (simp add: return_io_def)
next
  case (Cons applicant rest)
  obtain b s1 l1 where c: "decompress_applicant_data J (row_id applicant) s = (Inr b, s1)"
    and l1: "log s1 = log s @ l1"
    and st: "logged fmt_start_decompression l1 = [[Str (row_id applicant)]]"
    and rp: "logged fmt_decompress_reported l1 = []"
    using decompress_log [of J "row_id applicant" s] by blast
  from Cons.IH [of s1] obtain s' l where
    loop: "decompress_loop J rest s1 = (Inr (), s')" and l: "log s' = log s1 @ l"
    and st': "logged fmt_start_decompression l = map (\<lambda>r. [Str (row_id r)]) rest"
    and rp': "logged fmt_decompress_reported l = []"
    by blast
  have "decompress_loop J (applicant # rest) s = (Inr (), s')"
    using c loop by (simp add: bind_io_def catch_io_def return_io_def)
  moreover have "log s' = log s @ (l1 @ l)"
    by (simp add: l l1)
  moreover have "logged fmt_start_decompression (l1 @ l) =
      map (\<lambda>r. [Str (row_id r)]) (applicant # rest)"
    by (simp add: st st')
  moreover have "logged fmt_decompress_reported (l1 @ l) = []"
    by (simp add: rp rp')
  ultimately show ?case
    by blast
qed

lemma decompress_all_modified_log:
  assumes "first_call_succeeds s"
  shows "\<exists>s' l. decompress_all_modified J s = (Inr (), s') \<and> log s' = log s @ l \<and>
     logged fmt_start_decompression l =
       map (\<lambda>r. [Str (row_id r)]) (filter modified_since_decompression (applicants s)) \<and>
     logged fmt_decompress_reported l = []"
proof -
  define rows where "rows = filter modified_since_decompression (applicants s)"
  define E where
    "E = (INFO, ''Found {len(modified_applicants)} applicants requiring decompression'',
        [Num (length rows)])"
  define s1 where "s1 = s\<lparr>transport := tl (transport s), log := log s @ [E]\<rparr>"
  obtain s' l where
    loop: "decompress_loop J rows s1 = (Inr (), s')" and l: "log s' = log s1 @ l"
    and st: "logged fmt_start_decompression l = map (\<lambda>r. [Str (row_id r)]) rows"
    and rp: "logged fmt_decompress_reported l = []"
    using decompress_loop_log [of J rows s1] by blast
  have E: "logged fmt_start_decompression [E] = []" "logged fmt_decompress_reported [E] = []"
    by (simp_all add: logged_Cons dfmt_defs E_def)
  have "decompress_all_modified J s = (Inr (), s')"
    using loop
    by (simp add: decompress_all_modified_def catch_io_def bind_io_def get_all_ok [OF assms]
        logger_def rows_def [symmetric] E_def [symmetric] s1_def [symmetric])
  moreover have "log s' = log s @ ([E] @ l)"
    by (simp add: l s1_def)
  moreover have "logged fmt_start_decompression ([E] @ l) = map (\<lambda>r. [Str (row_id r)]) rows"
    "logged fmt_decompress_reported ([E] @ l) = []"
    by (simp_all add: E st rp logged_single [of _ E l])
  ultimately show ?thesis
    unfolding rows_def by blast
qed

(*LEMMAS-END*)

section \<open>The claims\<close>

text \<open>
  C5. When the applicant has no Personal sub-record, or no Salary sub-record,
  \<^verbatim>\<open>compress_applicant_data\<close> returns \<^verbatim>\<open>None\<close> after logging the missing-data error and
  writes nothing: the four tables, and so the document field and the last-compressed
  timestamp of the Applicant record, are as before. This holds whatever the transport does.
  An empty Experience list is not a failure: with both sub-records present, no Experience
  row, the applicant in the table and the four round trips answered, the document is
  returned, with an empty experience list.
\<close>

theorem compress_missing_prerequisite:
  "(linked PersonalDetails a s = [] \<or> linked SalaryPreferences a s = [] \<longrightarrow>
      fst (compress_applicant_data J a s) = Inr None \<and>
      same_tables s (snd (compress_applicant_data J a s)) \<and>
      last (log (snd (compress_applicant_data J a s))) =
        (ERROR, ''Missing required data for applicant {applicant_id}'', [Str a])) \<and>
   (linked PersonalDetails a s \<noteq> [] \<and> linked SalaryPreferences a s \<noteq> [] \<and>
    linked WorkExperience a s = [] \<and> calls_succeed 4 s \<and>
    a \<in> set (map row_id (applicants s)) \<longrightarrow>
      (\<exists>doc. fst (compress_applicant_data J a s) = Inr (Some doc) \<and>
         py_get doc ''experience'' JNull = Inr (JList [])))"
proof (intro conjI impI)
  assume "linked PersonalDetails a s = [] \<or> linked SalaryPreferences a s = []"
  from compress_missing [OF this, of J]
  obtain s' where r: "compress_applicant_data J a s =
      (Inr None, s'\<lparr>log := log s' @
         [(ERROR, ''Missing required data for applicant {applicant_id}'', [Str a])]\<rparr>)"
    and t: "same_tables s s'"
    by blast
  show "fst (compress_applicant_data J a s) = Inr None"
    by (simp add: r)
  show "same_tables s (snd (compress_applicant_data J a s))"
    using t by (simp add: r same_tables_def)
  show "last (log (snd (compress_applicant_data J a s))) =
      (ERROR, ''Missing required data for applicant {applicant_id}'', [Str a])"
    by (simp add: r)
next
  assume h: "linked PersonalDetails a s \<noteq> [] \<and> linked SalaryPreferences a s \<noteq> [] \<and>
    linked WorkExperience a s = [] \<and> calls_succeed 4 s \<and> a \<in> set (map row_id (applicants s))"
  then obtain p ps q qs where pq: "linked PersonalDetails a s = p # ps"
    "linked SalaryPreferences a s = q # qs"
    by (auto simp: neq_Nil_conv)
  from compress_ok [OF _ pq, of J] h
  obtain t1 s' where "compress_applicant_data J a s =
      (Inr (Some (compressed_json (row_fields p) (map row_fields (linked WorkExperience a s))
                     (row_fields q) t1)), s')"
    by blast
  with h show "\<exists>doc. fst (compress_applicant_data J a s) = Inr (Some doc) \<and>
      py_get doc ''experience'' JNull = Inr (JList [])"
    by (simp add: compressed_json_def py_get_def dict_get_def)
qed

theorem compress_missing_prerequisite_witness:
  "linked PersonalDetails ''recA'' ex_no_personal = [] \<and>
   fst (compress_applicant_data (table_codec []) ''recA'' ex_no_personal) = Inr None \<and>
   same_tables ex_no_personal
     (snd (compress_applicant_data (table_codec []) ''recA'' ex_no_personal)) \<and>
   linked PersonalDetails ''recA'' ex_no_experience \<noteq> [] \<and>
   linked SalaryPreferences ''recA'' ex_no_experience \<noteq> [] \<and>
   linked WorkExperience ''recA'' ex_no_experience = [] \<and>
   calls_succeed 4 ex_no_experience \<and>
   (\<exists>doc. fst (compress_applicant_data (table_codec []) ''recA'' ex_no_experience) =
        Inr (Some doc) \<and>
      py_get doc ''experience'' JNull = Inr (JList []))"
proof -
  have a: "linked PersonalDetails ''recA'' ex_no_personal = []"
    by (simp add: linked_def ex_no_personal_def)
  have b: "linked PersonalDetails ''recA'' ex_no_experience \<noteq> [] \<and>
      linked SalaryPreferences ''recA'' ex_no_experience \<noteq> [] \<and>
      linked WorkExperience ''recA'' ex_no_experience = [] \<and>
      calls_succeed 4 ex_no_experience \<and>
      ''recA'' \<in> set (map row_id (applicants ex_no_experience))"
    by (simp add: linked_def ex_no_experience_def ex_no_personal_def ex_personal_row_def
        ex_salary_row_def links_to_def calls_succeed_def)
  show ?thesis
    using a b
      compress_missing_prerequisite [of "''recA''" ex_no_personal "table_codec []"]
      compress_missing_prerequisite [of "''recA''" ex_no_experience "table_codec []"]
    by blast
qed

text \<open>
  C7 (as the code has it). \<^verbatim>\<open>compress_applicant_data\<close> gives its caller the same result,
  \<^verbatim>\<open>None\<close>, when a required sub-record is absent and when the fetch of the Personal or of the
  Salary sub-record fails in transport: \<^verbatim>\<open>_fetch_personal_data\<close> and \<^verbatim>\<open>_fetch_salary_data\<close>
  catch the error and return \<^verbatim>\<open>None\<close>. The two cases differ in the log only, where the failed
  fetch leaves a \<^verbatim>\<open>Failed to fetch ... data\<close> error and the absent sub-record does not. A failed
  write to the Applicant record is raised to the caller.
\<close>

theorem compress_failure_reasons:
  "(transport s = True # bs \<longrightarrow>
      fst (compress_applicant_data J a s) = Inr None \<and>
      (ERROR, ''Failed to fetch personal data: {str(e)}'', [Exn ConnectionError])
        \<in> set (log (snd (compress_applicant_data J a s)))) \<and>
   (transport s = b1 # b2 # True # bs \<longrightarrow>
      fst (compress_applicant_data J a s) = Inr None \<and>
      (ERROR, ''Failed to fetch salary data: {str(e)}'', [Exn ConnectionError])
        \<in> set (log (snd (compress_applicant_data J a s)))) \<and>
   (calls_succeed 3 s \<and>
    (linked PersonalDetails a s = [] \<or> linked SalaryPreferences a s = []) \<longrightarrow>
      fst (compress_applicant_data J a s) = Inr None \<and>
      log (snd (compress_applicant_data J a s)) =
        log s @ [(INFO, ''Starting compression for applicant {applicant_id}'', [Str a]),
                 (ERROR, ''Missing required data for applicant {applicant_id}'', [Str a])]) \<and>
   (transport s = False # False # False # True # bs \<and>
    linked PersonalDetails a s \<noteq> [] \<and> linked SalaryPreferences a s \<noteq> [] \<longrightarrow>
      fst (compress_applicant_data J a s) = Inl ConnectionError)"
proof (intro conjI impI)
  assume "transport s = True # bs"
  from compress_personal_fetch_fails [OF this, of J a]
  show "fst (compress_applicant_data J a s) = Inr None"
    and "(ERROR, ''Failed to fetch personal data: {str(e)}'', [Exn ConnectionError])
        \<in> set (log (snd (compress_applicant_data J a s)))"
    by auto
next
  assume "transport s = b1 # b2 # True # bs"
  from compress_salary_fetch_fails [OF this, of J a]
  show "fst (compress_applicant_data J a s) = Inr None"
    and "(ERROR, ''Failed to fetch salary data: {str(e)}'', [Exn ConnectionError])
        \<in> set (log (snd (compress_applicant_data J a s)))"
    by auto
next
  assume "calls_succeed 3 s \<and>
    (linked PersonalDetails a s = [] \<or> linked SalaryPreferences a s = [])"
  then have "calls_succeed 3 s"
    and "linked PersonalDetails a s = [] \<or> linked SalaryPreferences a s = []"
    by simp_all
  from compress_absent_log [OF this, of J]
  show "fst (compress_applicant_data J a s) = Inr None"
    and "log (snd (compress_applicant_data J a s)) =
        log s @ [(INFO, ''Starting compression for applicant {applicant_id}'', [Str a]),
                 (ERROR, ''Missing required data for applicant {applicant_id}'', [Str a])]"
    by auto
next
  assume h: "transport s = False # False # False # True # bs \<and>
    linked PersonalDetails a s \<noteq> [] \<and> linked SalaryPreferences a s \<noteq> []"
  then obtain p ps q qs where "linked PersonalDetails a s = p # ps"
    "linked SalaryPreferences a s = q # qs"
    by (auto simp: neq_Nil_conv)
  with h compress_update_fails [of s bs a p ps q qs J]
  show "fst (compress_applicant_data J a s) = Inl ConnectionError"
    by simp
qed

theorem compress_failure_reasons_witness:
  "transport ex_fetch_error = True # [] \<and>
   fst (compress_applicant_data (table_codec []) ''recA'' ex_fetch_error) = Inr None \<and>
   transport ex_salary_fetch_error = False # False # True # [] \<and>
   fst (compress_applicant_data (table_codec []) ''recA'' ex_salary_fetch_error) = Inr None \<and>
   calls_succeed 3 ex_no_personal \<and> linked PersonalDetails ''recA'' ex_no_personal = [] \<and>
   fst (compress_applicant_data (table_codec []) ''recA'' ex_no_personal) = Inr None \<and>
   transport ex_update_error = False # False # False # True # [] \<and>
   linked PersonalDetails ''recA'' ex_update_error \<noteq> [] \<and>
   linked SalaryPreferences ''recA'' ex_update_error \<noteq> [] \<and>
   fst (compress_applicant_data (table_codec []) ''recA'' ex_update_error) = Inl ConnectionError"
proof -
  have a: "transport ex_fetch_error = True # []"
    by (simp add: ex_fetch_error_def)
  have b: "transport ex_salary_fetch_error = False # False # True # []"
    by (simp add: ex_salary_fetch_error_def)
  have c: "calls_succeed 3 ex_no_personal \<and> linked PersonalDetails ''recA'' ex_no_personal = []"
    by (simp add: calls_succeed_def linked_def ex_no_personal_def)
  have d: "transport ex_update_error = False # False # False # True # [] \<and>
      linked PersonalDetails ''recA'' ex_update_error \<noteq> [] \<and>
      linked SalaryPreferences ''recA'' ex_update_error \<noteq> []"
    by (simp add: linked_def ex_update_error_def ex_no_experience_def ex_no_personal_def
        ex_personal_row_def ex_salary_row_def links_to_def)
  have r1: "fst (compress_applicant_data (table_codec []) ''recA'' ex_fetch_error) = Inr None"
    using a compress_failure_reasons [where s = ex_fetch_error and bs = "[]"
        and J = "table_codec []" and a = "''recA''"]
    by blast
  have r2: "fst (compress_applicant_data (table_codec []) ''recA'' ex_salary_fetch_error) =
      Inr None"
    using b compress_failure_reasons [where s = ex_salary_fetch_error and bs = "[]"
        and J = "table_codec []" and a = "''recA''" and ?b1.0 = False and ?b2.0 = False]
    by blast
  have r3: "fst (compress_applicant_data (table_codec []) ''recA'' ex_no_personal) = Inr None"
    using c compress_failure_reasons [where s = ex_no_personal and J = "table_codec []"
        and a = "''recA''"]
    by blast
  have r4: "fst (compress_applicant_data (table_codec []) ''recA'' ex_update_error) =
      Inl ConnectionError"
    using d compress_failure_reasons [where s = ex_update_error and bs = "[]"
        and J = "table_codec []" and a = "''recA''"]
    by blast
  from a b c d r1 r2 r3 r4 show ?thesis
    by blast
qed

text \<open>
  C7 as stated fails: for applicant \<open>recA\<close>, the store without a Personal sub-record and the
  store that holds one but fails the fetch give the caller the same result.
\<close>

theorem compress_failure_reasons_counterexample:
  "linked PersonalDetails ''recA'' ex_no_personal = [] \<and>
   transport ex_no_personal = [] \<and>
   linked PersonalDetails ''recA'' ex_fetch_error = [ex_personal_row] \<and>
   transport ex_fetch_error = [True] \<and>
   fst (compress_applicant_data (table_codec []) ''recA'' ex_no_personal) = Inr None \<and>
   fst (compress_applicant_data (table_codec []) ''recA'' ex_fetch_error) = Inr None"
  by (simp add: compress_applicant_data_def catch_io_def bind_io_def logger_def return_io_def
      fetch_personal_data_def fetch_experience_data_def fetch_salary_data_def search_def
      remote_call_def ex_fetch_error_def ex_no_experience_def ex_no_personal_def
      ex_personal_row_def ex_salary_row_def links_to_def all_present_def linked_def)





text \<open>
  C3. The applicant \<open>recA\<close> has five Experience rows and the two-entry document \<open>doc2\<close>, and
  no round trip fails. \<^verbatim>\<open>_update_work_experience\<close> deletes the five rows and then raises
  \<^verbatim>\<open>AttributeError\<close> at the \<^verbatim>\<open>create\<close> of the first entry: \<^verbatim>\<open>decompress_applicant_data\<close>
  logs the failure and returns \<^verbatim>\<open>False\<close>, and the applicant is left with no Experience row
  at all, where the document has two entries. The row of the other applicant is as before.
\<close>

theorem destructive_replace_failing_input:
  "reliable ex_five_rows \<and>
   document_of ex_codec ''recA'' ex_five_rows = Some ex_document2 \<and>
   experience_of ex_document2 = [ex_entry, ex_current_entry] \<and>
   length (linked WorkExperience ''recA'' ex_five_rows) = 5 \<and>
   fst (decompress_applicant_data ex_codec ''recA'' ex_five_rows) = Inr False \<and>
   linked WorkExperience ''recA''
     (snd (decompress_applicant_data ex_codec ''recA'' ex_five_rows)) = [] \<and>
   work_experience (snd (decompress_applicant_data ex_codec ''recA'' ex_five_rows)) =
     [ex_old_row ''recE3'' ''recB''] \<and>
   log (snd (decompress_applicant_data ex_codec ''recA'' ex_five_rows)) =
     [(INFO, ''Starting decompression for applicant {applicant_id}'', [Str ''recA'']),
      (INFO, ''Updated personal details for applicant {applicant_id}'', [Str ''recA'']),
      (ERROR, ''Failed to update work experience: {str(e)}'', [Exn AttributeError]),
      (ERROR, ''Failed to decompress data for applicant {applicant_id}: {str(e)}'',
       [Str ''recA'', Exn AttributeError])]"
proof -
  have a: "reliable ex_five_rows"
    by (simp add: reliable_def ex_five_rows_def)
  have c: "document_of ex_codec ''recA'' ex_five_rows = Some ex_document2"
    by (simp add: document_of_def ex_five_rows_def ex_codec_def table_codec_def)
  have e: "length (linked WorkExperience ''recA'' ex_five_rows) = 5"
    by (simp add: linked_def ex_five_rows_def ex_old_row_def links_to_def)
  have f: "experience_of ex_document2 = [ex_entry, ex_current_entry]"
    by (simp add: experience_of_def ex_document2_def)
  have run: "decompress_applicant_data ex_codec ''recA'' ex_five_rows =
     (Inr False,
      ex_five_rows
        \<lparr>work_experience := [ex_old_row ''recE3'' ''recB''],
         log :=
           [(INFO, ''Starting decompression for applicant {applicant_id}'', [Str ''recA'']),
            (INFO, ''Updated personal details for applicant {applicant_id}'', [Str ''recA'']),
            (ERROR, ''Failed to update work experience: {str(e)}'', [Exn AttributeError]),
            (ERROR, ''Failed to decompress data for applicant {applicant_id}: {str(e)}'',
             [Str ''recA'', Exn AttributeError])]\<rparr>)"
    by (simp add: decompress_applicant_data_def update_personal_details_def
        update_work_experience_def personal_update_data_def experience_create_data_def
        catch_io_def bind_io_def return_io_def raise_io_def lift_io_def logger_def
        get_def search_def update_def delete_def create_def remote_call_def links_to_def
        loads_value_def dict_has_def dict_get_def py_get_def py_iter_def
        ex_five_rows_def ex_old_row_def ex_personal_row_def ex_codec_def table_codec_def
        ex_document2_def ex_entry_def ex_current_entry_def)
  have l: "linked WorkExperience ''recA''
      (snd (decompress_applicant_data ex_codec ''recA'' ex_five_rows)) = []"
    unfolding run by (simp add: linked_def links_to_def ex_old_row_def)
  from a c e f l show ?thesis
    unfolding run by simp
qed

text \<open>
  C10. For every response, and for the exception fallback of the parser (a response that is
  not a string), the score of the parsed result is an integer from 1 to 10. Without a score
  line it is the default 5; otherwise the last score line decides: it gives 5 when
  \<^verbatim>\<open>int\<close> rejects its text or the number is below 1 or above 10, and the number
  otherwise.
\<close>

theorem parsed_score_in_range:
  "1 \<le> score (parse_llm_response r) \<and> score (parse_llm_response r) \<le> 10 \<and>
   (r = None \<longrightarrow> score (parse_llm_response r) = 5) \<and>
   (\<forall>content. r = Some content \<longrightarrow>
      score (parse_llm_response r) =
        (case score_lines content of
           [] \<Rightarrow> 5
         | x # xs \<Rightarrow>
             (case py_int (strip (remove_all ''Score:'' (last (x # xs)))) of
                None \<Rightarrow> 5
              | Some n \<Rightarrow> if n < 1 \<or> n > 10 then 5 else n)))"
proof (cases r)
  case None
  then show ?thesis
    by (simp add: parse_llm_response_def)
next
  case (Some content)
  have "1 \<le> score (parse_llm_response (Some content)) \<and>
      score (parse_llm_response (Some content)) \<le> 10"
    using parse_score_range by (simp add: parse_llm_response_score split: list.splits)
  moreover have "score (parse_llm_response (Some content)) =
        (case score_lines content of
           [] \<Rightarrow> 5
         | x # xs \<Rightarrow>
             (case py_int (strip (remove_all ''Score:'' (last (x # xs)))) of
                None \<Rightarrow> 5
              | Some n \<Rightarrow> if n < 1 \<or> n > 10 then 5 else n))"
    by (simp add: parse_llm_response_score parse_score_def split: list.splits)
  ultimately show ?thesis
    using Some by simp
qed

theorem parsed_score_in_range_witness:
  "score (parse_llm_response None) = 5 \<and>
   score_lines ex_response = [''Score: 12'', ''Score: 7''] \<and>
   score (parse_llm_response (Some ex_response)) = 7 \<and>
   score_lines ''Score: 11'' = [''Score: 11''] \<and>
   score (parse_llm_response (Some ''Score: 11'')) = 5 \<and>
   score_lines ''Score: high'' = [''Score: high''] \<and>
   score (parse_llm_response (Some ''Score: high'')) = 5 \<and>
   score_lines ''Summary: no score given'' = [] \<and>
   score (parse_llm_response (Some ''Summary: no score given'')) = 5"
proof -
  have a: "score (parse_llm_response None) = 5"
    using parsed_score_in_range [of None] by simp
  have l1: "score_lines ex_response = [''Score: 12'', ''Score: 7'']"
    by (rule ex_score_lines)
  have b: "score (parse_llm_response (Some ex_response)) = 7"
    using parsed_score_in_range [of "Some ex_response"]
    by (simp add: l1 py_int_def strip_def chars_one_byte is_space_one_byte
        is_int_space_one_byte unsigned_int_def decimal_one_byte del: chars.simps(2))
  have l2: "score_lines ''Score: 11'' = [''Score: 11'']"
    by (simp add: score_lines_def strip_def chars_one_byte is_space_one_byte startswith_def
        del: chars.simps(2))
  have c: "score (parse_llm_response (Some ''Score: 11'')) = 5"
    using parsed_score_in_range [of "Some ''Score: 11''"]
    by (simp add: l2 py_int_def strip_def chars_one_byte is_space_one_byte
        is_int_space_one_byte unsigned_int_def decimal_one_byte del: chars.simps(2))
  have l3: "score_lines ''Score: high'' = [''Score: high'']"
    by (simp add: score_lines_def strip_def chars_one_byte is_space_one_byte startswith_def
        del: chars.simps(2))
  have d: "score (parse_llm_response (Some ''Score: high'')) = 5"
    using parsed_score_in_range [of "Some ''Score: high''"]
    by (simp add: l3 py_int_def strip_def chars_one_byte is_space_one_byte
        is_int_space_one_byte unsigned_int_def decimal_one_byte del: chars.simps(2))
  have l4: "score_lines ''Summary: no score given'' = []"
    by (simp add: score_lines_def strip_def chars_one_byte is_space_one_byte startswith_def
        del: chars.simps(2))
  have e: "score (parse_llm_response (Some ''Summary: no score given'')) = 5"
    using parsed_score_in_range [of "Some ''Summary: no score given''"] by (simp add: l4)
  from a l1 b l2 c l3 d l4 e show ?thesis
    by simp
qed

text \<open>
  C6 (as the code has it). Right after \<^verbatim>\<open>_update_applicant_record\<close> has recorded the digest
  of the text \<open>S\<close> for an applicant, with a non-empty summary, \<^verbatim>\<open>_needs_evaluation\<close> returns
  \<^verbatim>\<open>False\<close> for \<open>S\<close>, and for any text \<open>S'\<close> it returns \<^verbatim>\<open>True\<close> exactly when the digest of
  \<open>S'\<close> differs from the digest of \<open>S\<close>.
\<close>

theorem change_detection:
  assumes "reliable s" and "a \<in> row_id ` set (applicants s)" and "summary ev \<noteq> []"
  shows "fst (update_applicant_record a ev S s) = Inr () \<and>
     fst (needs_evaluation a S (snd (update_applicant_record a ev S s))) = Inr False \<and>
     fst (needs_evaluation a S' (snd (update_applicant_record a ev S s))) =
       Inr (hash_json S' \<noteq> hash_json S)"
  using needs_evaluation_after_update [OF assms, of S S]
    needs_evaluation_after_update [OF assms, of S S']
  by simp

theorem change_detection_witness:
  "reliable ex_compressed \<and> ''recA'' \<in> row_id ` set (applicants ex_compressed) \<and>
   summary ex_evaluation \<noteq> [] \<and>
   fst (update_applicant_record ''recA'' ex_evaluation ''doc1'' ex_compressed) = Inr () \<and>
   fst (needs_evaluation ''recA'' ''doc1''
     (snd (update_applicant_record ''recA'' ex_evaluation ''doc1'' ex_compressed))) = Inr False"
proof -
  have a: "reliable ex_compressed"
    by (simp add: reliable_def ex_compressed_def ex_no_experience_def ex_no_personal_def)
  have b: "''recA'' \<in> row_id ` set (applicants ex_compressed)"
    by (simp add: ex_compressed_def)
  have c: "summary ex_evaluation \<noteq> []"
    by (simp add: ex_evaluation_def)
  from change_detection [OF a b c, of "''doc1''"] a b c show ?thesis
    by simp
qed

text \<open>
  C6 as stated fails: the two texts \<open>collision_a\<close> and \<open>collision_b\<close> differ and have the
  same MD5 digest, so after the digest of the first is recorded \<^verbatim>\<open>_needs_evaluation\<close>
  returns \<^verbatim>\<open>False\<close> for the second.
\<close>

theorem change_detection_counterexample:
  "collision_a \<noteq> collision_b \<and>
   fst (update_applicant_record ''recA'' ex_evaluation collision_a ex_compressed) = Inr () \<and>
   fst (needs_evaluation ''recA'' collision_b
     (snd (update_applicant_record ''recA'' ex_evaluation collision_a ex_compressed))) =
     Inr False"
proof -
  have a: "reliable ex_compressed"
    by (simp add: reliable_def ex_compressed_def ex_no_experience_def ex_no_personal_def)
  have b: "''recA'' \<in> row_id ` set (applicants ex_compressed)"
    by (simp add: ex_compressed_def)
  have c: "summary ex_evaluation \<noteq> []"
    by (simp add: ex_evaluation_def)
  from needs_evaluation_after_update [OF a b c, of collision_a collision_b] md5_collision
  show ?thesis
    by simp
qed

text \<open>
  C2 (as the code has it). \<^verbatim>\<open>compress_applicant_data\<close> never writes the stored digest: the
  Last JSON Hash field of every applicant is after the run what it was before, whatever the
  run did. The digest is written by \<^verbatim>\<open>_update_applicant_record\<close> of the evaluator: when it
  is given the text of the stored document and the store answers, the stored digest is
  afterwards the digest of the stored document.
\<close>

theorem stored_hash_written_by_evaluator:
  "stored_hash b (snd (compress_applicant_data J a s)) = stored_hash b s \<and>
   (reliable s \<and> a \<in> row_id ` set (applicants s) \<and> stored_document a s = Some (JStr S) \<longrightarrow>
      fst (update_applicant_record a ev S s) = Inr () \<and>
      stored_document a (snd (update_applicant_record a ev S s)) = Some (JStr S) \<and>
      digest_current a (snd (update_applicant_record a ev S s)))"
  using compress_keeps_hash [of b J a s] digest_current_after_update [of s a S ev]
  by (simp add: stored_hash_def)

theorem stored_hash_written_by_evaluator_witness:
  "reliable ex_compressed \<and> ''recA'' \<in> row_id ` set (applicants ex_compressed) \<and>
   stored_document ''recA'' ex_compressed = Some (JStr ''doc1'') \<and>
   fst (update_applicant_record ''recA'' ex_evaluation ''doc1'' ex_compressed) = Inr () \<and>
   digest_current ''recA''
     (snd (update_applicant_record ''recA'' ex_evaluation ''doc1'' ex_compressed))"
proof -
  have a: "reliable ex_compressed"
    by (simp add: reliable_def ex_compressed_def ex_no_experience_def ex_no_personal_def)
  have b: "''recA'' \<in> row_id ` set (applicants ex_compressed)"
    by (simp add: ex_compressed_def)
  have c: "stored_document ''recA'' ex_compressed = Some (JStr ''doc1'')"
    by (simp add: stored_document_def applicant_field_def ex_compressed_def)
  from stored_hash_written_by_evaluator
    [where s = ex_compressed and a = "''recA''" and S = "''doc1''" and ev = ex_evaluation]
    a b c
  show ?thesis
    by blast
qed

text \<open>
  C2 as stated fails: for applicant \<open>recA\<close>, who has both sub-records and no stored digest,
  the Compressor writes the document text \<open>doc1\<close> and leaves the applicant without a stored
  digest.
\<close>

theorem stored_hash_written_by_evaluator_counterexample:
  "stored_document ''recA''
     (snd (compress_applicant_data ex_codec1 ''recA'' ex_no_experience)) =
     Some (JStr ''doc1'') \<and>
   stored_hash ''recA'' (snd (compress_applicant_data ex_codec1 ''recA'' ex_no_experience)) =
     None \<and>
   \<not> digest_current ''recA'' (snd (compress_applicant_data ex_codec1 ''recA'' ex_no_experience))"
proof -
  have "snd (compress_applicant_data ex_codec1 ''recA'' ex_no_experience) =
    ex_no_experience
      \<lparr>applicants := [Row ''recA'' [(''Personal Details'', JList [JStr ''recP'']),
                                     (''Compressed JSON'', JStr ''doc1''),
                                     (''Last Compressed'', JStr ''2024-05-01T10:00:01'')]],
       clock := [],
       log := [(INFO, ''Starting compression for applicant {applicant_id}'', [Str ''recA'']),
               (INFO, ''Successfully compressed data for applicant {applicant_id}'',
                 [Str ''recA''])]\<rparr>"
    by (simp add: compress_applicant_data_def catch_io_def bind_io_def logger_def return_io_def
      fetch_personal_data_def fetch_experience_data_def fetch_salary_data_def search_def
      remote_call_def ex_no_experience_def ex_no_personal_def now_isoformat_def update_def
      ex_personal_row_def ex_salary_row_def links_to_def all_present_def ex_codec1_def
      table_codec_def Let_def compressed_json_def compressed_personal_def
      compressed_salary_def dict_get_def)
  then show ?thesis
    by (simp add: stored_document_def stored_hash_def digest_current_def applicant_field_def
        ex_no_experience_def ex_no_personal_def)
qed

text \<open>
  C9. Batch isolation. Whenever the listing of the applicants succeeds, the batch driver of
  the Compressor returns normally. Whatever happens to an applicant, the compression of
  every pending applicant is started, in the order of the listing, and every exception that
  \<^verbatim>\<open>compress_applicant_data\<close> raised is reported once at the loop boundary, with the
  identifier of the applicant. The driver of the Decompressor likewise starts the
  decompression of every modified applicant; there \<^verbatim>\<open>decompress_applicant_data\<close> absorbs
  every exception itself, so that none reaches the loop boundary.
\<close>

theorem batch_isolation:
  assumes "first_call_succeeds s"
  shows "(\<exists>s' l. compress_all_pending J s = (Inr (), s') \<and> log s' = log s @ l \<and>
            logged fmt_start_compression l =
              map (\<lambda>r. [Str (row_id r)]) (filter pending_compression (applicants s)) \<and>
            logged fmt_compress_reported l = logged fmt_compress_raised l) \<and>
         (\<exists>s' l. decompress_all_modified J s = (Inr (), s') \<and> log s' = log s @ l \<and>
            logged fmt_start_decompression l =
              map (\<lambda>r. [Str (row_id r)])
                (filter modified_since_decompression (applicants s)) \<and>
            logged fmt_decompress_reported l = [])"
  using compress_all_pending_log [OF assms, of J] decompress_all_modified_log [OF assms, of J]
  by (rule conjI)

text \<open>Three pending applicants; the write of the document of the second one fails. All three
  are started, the first and the third are completed, one failure is reported, and the second
  is the only one still pending afterwards.\<close>

theorem batch_isolation_witness:
  "first_call_succeeds ex_batch \<and>
   fst (compress_all_pending ex_codec ex_batch) = Inr () \<and>
   logged fmt_start_compression (log (snd (compress_all_pending ex_codec ex_batch))) =
     [[Str ''recA''], [Str ''recB''], [Str ''recC'']] \<and>
   logged fmt_compress_reported (log (snd (compress_all_pending ex_codec ex_batch))) =
     [[Str ''recB'', Exn ConnectionError]] \<and>
   logged fmt_compressed (log (snd (compress_all_pending ex_codec ex_batch))) =
     [[Str ''recA''], [Str ''recC'']] \<and>
   filter pending_compression (applicants (snd (compress_all_pending ex_codec ex_batch))) =
     [Row ''recB'' [(''Personal Details'', JList [JStr ''recP2''])]]"
proof -
  have f: "first_call_succeeds ex_batch"
    by (simp add: first_call_succeeds_def ex_batch_def)
  have e: "log ex_batch = []"
    "map (\<lambda>r. [Str (row_id r)]) (filter pending_compression (applicants ex_batch)) =
       [[Str ''recA''], [Str ''recB''], [Str ''recC'']]"
    by (simp_all add: ex_batch_def pending_compression_def blank_def)
  from batch_isolation [OF f, of ex_codec] obtain s' l where
    "compress_all_pending ex_codec ex_batch = (Inr (), s')" "log s' = log ex_batch @ l"
    "logged fmt_start_compression l =
       map (\<lambda>r. [Str (row_id r)]) (filter pending_compression (applicants ex_batch))"
    by blast
  then have a: "fst (compress_all_pending ex_codec ex_batch) = Inr ()"
    "logged fmt_start_compression (log (snd (compress_all_pending ex_codec ex_batch))) =
       [[Str ''recA''], [Str ''recB''], [Str ''recC'']]"
    by (simp_all add: e)
  have run: "log (snd (compress_all_pending ex_codec ex_batch)) =
      [(INFO, ''Found {len(pending_applicants)} applicants pending compression'', [Num 3]),
       (INFO, ''Starting compression for applicant {applicant_id}'', [Str ''recA'']),
       (INFO, ''Successfully compressed data for applicant {applicant_id}'', [Str ''recA'']),
       (INFO, ''Starting compression for applicant {applicant_id}'', [Str ''recB'']),
       (ERROR, ''Failed to compress data for applicant {applicant_id}: {str(e)}'',
        [Str ''recB'', Exn ConnectionError]),
       (ERROR, ''Failed to compress applicant {applicant_id}: {str(e)}'',
        [Str ''recB'', Exn ConnectionError]),
       (INFO, ''Starting compression for applicant {applicant_id}'', [Str ''recC'']),
       (INFO, ''Successfully compressed data for applicant {applicant_id}'', [Str ''recC''])]"
    by (simp add: compress_all_pending_def compress_applicant_data_def
        fetch_personal_data_def fetch_experience_data_def fetch_salary_data_def
        catch_io_def bind_io_def return_io_def raise_io_def logger_def now_isoformat_def
        get_all_def search_def update_def remote_call_def links_to_def all_present_def
        ex_batch_def ex_sub_row_def pending_compression_def blank_def Let_def)
  have b: "logged fmt_compress_reported (log (snd (compress_all_pending ex_codec ex_batch))) =
      [[Str ''recB'', Exn ConnectionError]]"
    "logged fmt_compressed (log (snd (compress_all_pending ex_codec ex_batch))) =
      [[Str ''recA''], [Str ''recC'']]"
    unfolding run by (simp_all add: logged_def fmt_compress_reported_def fmt_compressed_def)
  have c: "filter pending_compression
      (applicants (snd (compress_all_pending ex_codec ex_batch))) =
      [Row ''recB'' [(''Personal Details'', JList [JStr ''recP2''])]]"
    by (simp add: compress_all_pending_def compress_applicant_data_def
        fetch_personal_data_def fetch_experience_data_def fetch_salary_data_def
        catch_io_def bind_io_def return_io_def raise_io_def logger_def now_isoformat_def
        get_all_def search_def update_def remote_call_def links_to_def all_present_def
        ex_batch_def ex_sub_row_def pending_compression_def blank_def Let_def
        ex_codec_def table_codec_def)
  from f a b c show ?thesis
    by simp
qed

(*CLAIMS*)

end
